theory Spec2Isabelle
  imports Complex_Main
begin

section \<open>JavaScript values used by the renderer bridge\<close>

text \<open>
  The repository is TypeScript.  The parts of the JavaScript runtime the code relies on
  are modelled here, once, so that the translated functions below read like the source.

  \<^item> A JavaScript \<open>number\<close> is \<open>jsnum\<close>: \<open>NaN\<close>, the two infinities, or a finite number,
    kept as an exact rational (rounding to IEEE doubles and the sign of zero are outside
    the model; nothing in the controller computes with more than \<open>Math.max\<close> and
    \<open>Math.floor\<close>).
  \<^item> A JavaScript string is a \<open>string\<close>, read as the UTF-8 bytes of the text.
  \<^item> A thrown value is an \<open>exn\<close>; a function that may throw returns \<open>exn + 'a\<close>.
\<close>

datatype jsnum = NaN | NegInf | Num rat | PosInf

datatype exn = Error string | SyntaxError string | TypeError string

datatype json =
    JNull
  | JBool bool
  | JNumber jsnum
  | JString string
  | JArray "json list"
  | JObject "(string \<times> json) list"

text \<open>\<open>Math.floor\<close> and the two-argument \<open>Math.max\<close>.\<close>

fun Math_floor :: "jsnum \<Rightarrow> jsnum" where
  "Math_floor (Num r) = Num (of_int \<lfloor>r\<rfloor>)"
| "Math_floor n = n"

fun Math_max :: "jsnum \<Rightarrow> jsnum \<Rightarrow> jsnum" where
  "Math_max NaN _ = NaN"
| "Math_max _ NaN = NaN"
| "Math_max PosInf _ = PosInf"
| "Math_max _ PosInf = PosInf"
| "Math_max NegInf b = b"
| "Math_max a NegInf = a"
| "Math_max (Num a) (Num b) = Num (max a b)"

text \<open>\<open>!data\<close> is true exactly when \<open>data\<close> is falsy.\<close>

fun truthy :: "json \<Rightarrow> bool" where
  "truthy JNull = False"
| "truthy (JBool b) = b"
| "truthy (JNumber n) = (n \<noteq> NaN \<and> n \<noteq> Num 0)"
| "truthy (JString s) = (s \<noteq> [])"
| "truthy (JArray _) = True"
| "truthy (JObject _) = True"

text \<open>
  Property read \<open>data.k\<close> on a value that came out of \<open>JSON.parse\<close>.  Reading a property of
  \<open>null\<close> throws a \<open>TypeError\<close>; on an object the last member with that key wins (as
  \<open>JSON.parse\<close> builds it); on every other value the keys read by this program are not
  defined, so the read gives \<open>undefined\<close>, here \<open>None\<close>.
\<close>

fun get_property :: "json \<Rightarrow> string \<Rightarrow> exn + json option" where
  "get_property JNull k = Inl (TypeError ''Cannot read properties of null'')"
| "get_property (JObject ms) k = Inr (map_of (rev ms) k)"
| "get_property _ k = Inr None"

text \<open>
  \<open>Number(v)\<close> for a property value \<open>v\<close> (\<open>None\<close> is \<open>undefined\<close>).  The conversion of
  strings, arrays and objects (\<open>StringToNumber\<close> and \<open>ToPrimitive\<close> of the language) is the
  parameter \<open>coerce\<close>.
\<close>

fun Number_js :: "(json \<Rightarrow> jsnum) \<Rightarrow> json option \<Rightarrow> jsnum" where
  "Number_js coerce None = NaN"
| "Number_js coerce (Some JNull) = Num 0"
| "Number_js coerce (Some (JBool b)) = (if b then Num 1 else Num 0)"
| "Number_js coerce (Some (JNumber n)) = n"
| "Number_js coerce (Some v) = coerce v"

subsection \<open>A reference \<open>JSON.parse\<close>\<close>

text \<open>
  \<open>JSON.parse\<close> is part of the language, not of the repository.  The translated parser
  below takes it as a parameter; this reference reader of the JSON grammar (ECMA-404) is
  what the literal examples are run through.  It is a recursive-descent reader with fuel;
  \<open>JSON_parse\<close> supplies more fuel than any input can use (\<open>fuel_suffices\<close> below).
\<close>

definition is_ws :: "char \<Rightarrow> bool" where
  "is_ws c = (c = CHR '' '' \<or> c = CHR 0x09 \<or> c = CHR 0x0A \<or> c = CHR 0x0D)"

fun skip_ws :: "string \<Rightarrow> string" where
  "skip_ws [] = []"
| "skip_ws (c # cs) = (if is_ws c then skip_ws cs else c # cs)"

definition is_digit :: "char \<Rightarrow> bool" where
  "is_digit c = (48 \<le> (of_char c :: nat) \<and> (of_char c :: nat) \<le> 57)"

definition digit_val :: "char \<Rightarrow> nat" where
  "digit_val c = of_char c - 48"

fun digits_val :: "nat \<Rightarrow> string \<Rightarrow> nat" where
  "digits_val acc [] = acc"
| "digits_val acc (c # cs) = digits_val (10 * acc + digit_val c) cs"

definition hex_val :: "char \<Rightarrow> nat option" where
  "hex_val c =
     (let n = (of_char c :: nat) in
      if 48 \<le> n \<and> n \<le> 57 then Some (n - 48)
      else if 65 \<le> n \<and> n \<le> 70 then Some (n - 55)
      else if 97 \<le> n \<and> n \<le> 102 then Some (n - 87)
      else None)"

text \<open>The UTF-8 bytes of one UTF-16 code unit (a \<open>\uXXXX\<close> escape).\<close>

definition utf8 :: "nat \<Rightarrow> string" where
  "utf8 n =
     (if n < 128 then [char_of n]
      else if n < 2048 then [char_of (192 + n div 64), char_of (128 + n mod 64)]
      else [char_of (224 + n div 4096), char_of (128 + (n div 64) mod 64),
            char_of (128 + n mod 64)])"

definition simple_escape :: "char \<Rightarrow> char option" where
  "simple_escape e =
     (if e = CHR 0x22 then Some (CHR 0x22)
      else if e = CHR 0x5C then Some (CHR 0x5C)
      else if e = CHR ''/'' then Some (CHR ''/'')
      else if e = CHR ''b'' then Some (CHR 0x08)
      else if e = CHR ''f'' then Some (CHR 0x0C)
      else if e = CHR ''n'' then Some (CHR 0x0A)
      else if e = CHR ''r'' then Some (CHR 0x0D)
      else if e = CHR ''t'' then Some (CHR 0x09)
      else None)"

text \<open>The characters of a string literal, after its opening quote, up to the closing one.\<close>

fun parse_chars :: "string \<Rightarrow> (string \<times> string) option" where
  "parse_chars [] = None"
| "parse_chars (c # cs) =
     (if c = CHR 0x22 then Some ([], cs)
      else if c = CHR 0x5C then
        (case cs of
           [] \<Rightarrow> None
         | e # es \<Rightarrow>
             if e = CHR ''u'' then
               (case es of
                  h1 # h2 # h3 # h4 # rest \<Rightarrow>
                    (case (hex_val h1, hex_val h2, hex_val h3, hex_val h4) of
                       (Some a, Some b, Some c', Some d) \<Rightarrow>
                         (case parse_chars rest of
                            None \<Rightarrow> None
                          | Some (s, r) \<Rightarrow>
                              Some (utf8 (4096 * a + 256 * b + 16 * c' + d) @ s, r))
                     | _ \<Rightarrow> None)
                | _ \<Rightarrow> None)
             else
               (case simple_escape e of
                  None \<Rightarrow> None
                | Some ch \<Rightarrow>
                    (case parse_chars es of
                       None \<Rightarrow> None
                     | Some (s, r) \<Rightarrow> Some (ch # s, r))))
      else if (of_char c :: nat) < 32 then None
      else (case parse_chars cs of
              None \<Rightarrow> None
            | Some (s, r) \<Rightarrow> Some (c # s, r)))"

text \<open>
  A number literal: \<open>-? int frac? exp?\<close>, with no leading zero before further digits.
\<close>

definition parse_exponent :: "string \<Rightarrow> ((bool \<times> nat) \<times> string) option" where
  "parse_exponent s =
     (case s of
        [] \<Rightarrow> Some ((False, 0), s)
      | c # cs \<Rightarrow>
          if c = CHR ''e'' \<or> c = CHR ''E'' then
            (let (neg, ds) =
                   (case cs of
                      [] \<Rightarrow> (False, cs)
                    | g # gs \<Rightarrow>
                        if g = CHR ''-'' then (True, gs)
                        else if g = CHR ''+'' then (False, gs)
                        else (False, cs));
                 ex = takeWhile is_digit ds
             in if ex = [] then None
                else Some ((neg, digits_val 0 ex), dropWhile is_digit ds))
          else Some ((False, 0), s))"

definition parse_fraction :: "string \<Rightarrow> (string \<times> string) option" where
  "parse_fraction s =
     (case s of
        [] \<Rightarrow> Some ([], s)
      | c # cs \<Rightarrow>
          if c = CHR ''.'' then
            (let fr = takeWhile is_digit cs
             in if fr = [] then None else Some (fr, dropWhile is_digit cs))
          else Some ([], s))"

definition parse_number :: "string \<Rightarrow> (jsnum \<times> string) option" where
  "parse_number s =
     (let (neg, s1) =
            (case s of
               [] \<Rightarrow> (False, s)
             | c # cs \<Rightarrow> if c = CHR ''-'' then (True, cs) else (False, s));
          ip = takeWhile is_digit s1;
          s2 = dropWhile is_digit s1
      in if ip = [] \<or> (1 < length ip \<and> hd ip = CHR ''0'') then None
         else
           (case parse_fraction s2 of
              None \<Rightarrow> None
            | Some (fr, s3) \<Rightarrow>
                (case parse_exponent s3 of
                   None \<Rightarrow> None
                 | Some ((eneg, ex), s4) \<Rightarrow>
                     (let m = (of_nat (digits_val 0 ip) :: rat)
                              + of_nat (digits_val 0 fr) / 10 ^ length fr;
                          v = (if eneg then m / 10 ^ ex else m * 10 ^ ex)
                      in Some (Num (if neg then - v else v), s4)))))"

datatype parse_error = OutOfFuel | Malformed

definition strip_prefix :: "string \<Rightarrow> string \<Rightarrow> string option" where
  "strip_prefix p s = (if take (length p) s = p then Some (drop (length p) s) else None)"

fun parse_value :: "nat \<Rightarrow> string \<Rightarrow> parse_error + (json \<times> string)"
  and parse_elements :: "nat \<Rightarrow> string \<Rightarrow> parse_error + (json list \<times> string)"
  and parse_members :: "nat \<Rightarrow> string \<Rightarrow> parse_error + ((string \<times> json) list \<times> string)"
where
  "parse_value 0 s = Inl OutOfFuel"
| "parse_value (Suc n) s =
     (case s of
        [] \<Rightarrow> Inl Malformed
      | c # cs \<Rightarrow>
          if c = CHR ''{'' then
            (case skip_ws cs of
               [] \<Rightarrow> Inl Malformed
             | d # ds \<Rightarrow>
                 if d = CHR ''}'' then Inr (JObject [], ds)
                 else (case parse_members n (d # ds) of
                         Inl e \<Rightarrow> Inl e
                       | Inr (ms, r) \<Rightarrow> Inr (JObject ms, r)))
          else if c = CHR ''['' then
            (case skip_ws cs of
               [] \<Rightarrow> Inl Malformed
             | d # ds \<Rightarrow>
                 if d = CHR '']'' then Inr (JArray [], ds)
                 else (case parse_elements n (d # ds) of
                         Inl e \<Rightarrow> Inl e
                       | Inr (vs, r) \<Rightarrow> Inr (JArray vs, r)))
          else if c = CHR 0x22 then
            (case parse_chars cs of
               None \<Rightarrow> Inl Malformed
             | Some (str, r) \<Rightarrow> Inr (JString str, r))
          else if c = CHR ''t'' then
            (case strip_prefix ''true'' s of
               None \<Rightarrow> Inl Malformed
             | Some r \<Rightarrow> Inr (JBool True, r))
          else if c = CHR ''f'' then
            (case strip_prefix ''false'' s of
               None \<Rightarrow> Inl Malformed
             | Some r \<Rightarrow> Inr (JBool False, r))
          else if c = CHR ''n'' then
            (case strip_prefix ''null'' s of
               None \<Rightarrow> Inl Malformed
             | Some r \<Rightarrow> Inr (JNull, r))
          else
            (case parse_number s of
               None \<Rightarrow> Inl Malformed
             | Some (x, r) \<Rightarrow> Inr (JNumber x, r)))"
| "parse_elements 0 s = Inl OutOfFuel"
| "parse_elements (Suc n) s =
     (case parse_value n s of
        Inl e \<Rightarrow> Inl e
      | Inr (v, r) \<Rightarrow>
          (case skip_ws r of
             [] \<Rightarrow> Inl Malformed
           | c # cs \<Rightarrow>
               if c = CHR '','' then
                 (case parse_elements n (skip_ws cs) of
                    Inl e \<Rightarrow> Inl e
                  | Inr (vs, r') \<Rightarrow> Inr (v # vs, r'))
               else if c = CHR '']'' then Inr ([v], cs)
               else Inl Malformed))"
| "parse_members 0 s = Inl OutOfFuel"
| "parse_members (Suc n) s =
     (case s of
        [] \<Rightarrow> Inl Malformed
      | q # qs \<Rightarrow>
          if q \<noteq> CHR 0x22 then Inl Malformed
          else
            (case parse_chars qs of
               None \<Rightarrow> Inl Malformed
             | Some (k, r0) \<Rightarrow>
                 (case skip_ws r0 of
                    [] \<Rightarrow> Inl Malformed
                  | col # r1 \<Rightarrow>
                      if col \<noteq> CHR '':'' then Inl Malformed
                      else
                        (case parse_value n (skip_ws r1) of
                           Inl e \<Rightarrow> Inl e
                         | Inr (v, r) \<Rightarrow>
                             (case skip_ws r of
                                [] \<Rightarrow> Inl Malformed
                              | c # cs \<Rightarrow>
                                  if c = CHR '','' then
                                    (case parse_members n (skip_ws cs) of
                                       Inl e \<Rightarrow> Inl e
                                     | Inr (ms, r') \<Rightarrow> Inr ((k, v) # ms, r'))
                                  else if c = CHR ''}'' then Inr ([(k, v)], cs)
                                  else Inl Malformed)))))"

definition JSON_parse :: "string \<Rightarrow> exn + json" where
  "JSON_parse raw =
     (case parse_value (2 * length raw + 2) (skip_ws raw) of
        Inl _ \<Rightarrow> Inl (SyntaxError ''Unexpected token in JSON'')
      | Inr (v, r) \<Rightarrow>
          if skip_ws r = [] then Inr v
          else Inl (SyntaxError ''Unexpected token in JSON''))"

section \<open>Renderer bridge protocol (\<open>application/events/RendererMessages.ts\<close>)\<close>

datatype RendererInboundMessage =
    READY
  | PDF_DIMENSIONS jsnum jsnum jsnum "jsnum option"
  | RENDER_DONE
  | READY_FOR_OVERLAYS
  | DEBUG_PAGE_COUNT jsnum

datatype RendererOutboundCommand =
    LOAD_PDF_BASE64 string
  | SET_PAGE jsnum
  | SET_SCALE jsnum

text \<open>The \<open>type\<close> tag of a message, as \<open>msg.type\<close> reads it.\<close>

fun msg_type :: "RendererInboundMessage \<Rightarrow> string" where
  "msg_type READY = ''READY''"
| "msg_type (PDF_DIMENSIONS _ _ _ _) = ''PDF_DIMENSIONS''"
| "msg_type RENDER_DONE = ''RENDER_DONE''"
| "msg_type READY_FOR_OVERLAYS = ''READY_FOR_OVERLAYS''"
| "msg_type (DEBUG_PAGE_COUNT _) = ''DEBUG_PAGE_COUNT''"

text \<open>
  The \<open>switch\<close> of \<open>parseRendererInboundMessage\<close> on a \<open>data\<close> whose \<open>type\<close> is the string \<open>t\<close>.
  \<open>data.rotation == null\<close> holds for \<open>null\<close> and for \<open>undefined\<close>.
\<close>

definition parse_switch ::
  "(json \<Rightarrow> jsnum) \<Rightarrow> json \<Rightarrow> string \<Rightarrow> exn + RendererInboundMessage option" where
  "parse_switch coerce data t =
     (if t = ''READY'' then Inr (Some READY)
      else if t = ''RENDER_DONE'' then Inr (Some RENDER_DONE)
      else if t = ''READY_FOR_OVERLAYS'' then Inr (Some READY_FOR_OVERLAYS)
      else if t = ''PDF_DIMENSIONS'' then
        (case get_property data ''width'' of
           Inl e \<Rightarrow> Inl e
         | Inr w \<Rightarrow>
             (case get_property data ''height'' of
                Inl e \<Rightarrow> Inl e
              | Inr h \<Rightarrow>
                  (case get_property data ''scale'' of
                     Inl e \<Rightarrow> Inl e
                   | Inr s \<Rightarrow>
                       (case get_property data ''rotation'' of
                          Inl e \<Rightarrow> Inl e
                        | Inr r \<Rightarrow>
                            Inr (Some (PDF_DIMENSIONS (Number_js coerce w)
                                   (Number_js coerce h) (Number_js coerce s)
                                   (if r = None \<or> r = Some JNull then None
                                    else Some (Number_js coerce r))))))))
      else if t = ''DEBUG_PAGE_COUNT'' then
        (case get_property data ''pages'' of
           Inl e \<Rightarrow> Inl e
         | Inr p \<Rightarrow> Inr (Some (DEBUG_PAGE_COUNT (Number_js coerce p))))
      else Inr None)"

text \<open>
  The body of the \<open>try\<close> block: everything that can throw is a value of the left summand.
\<close>

definition parse_try ::
  "(string \<Rightarrow> exn + json) \<Rightarrow> (json \<Rightarrow> jsnum) \<Rightarrow> string
     \<Rightarrow> exn + RendererInboundMessage option" where
  "parse_try json_parse coerce raw =
     (case json_parse raw of
        Inl e \<Rightarrow> Inl e
      | Inr data \<Rightarrow>
          if \<not> truthy data then Inr None
          else
            (case get_property data ''type'' of
               Inl e \<Rightarrow> Inl e
             | Inr (Some (JString t)) \<Rightarrow> parse_switch coerce data t
             | Inr _ \<Rightarrow> Inr None))"

text \<open>\<open>try { ... } catch { return null; }\<close>\<close>

definition parseRendererInboundMessage ::
  "(string \<Rightarrow> exn + json) \<Rightarrow> (json \<Rightarrow> jsnum) \<Rightarrow> string \<Rightarrow> RendererInboundMessage option" where
  "parseRendererInboundMessage json_parse coerce raw =
     (case parse_try json_parse coerce raw of
        Inl _ \<Rightarrow> None
      | Inr r \<Rightarrow> r)"

section \<open>Domain types (\<open>domain/geometry/Rect.ts\<close>, \<open>domain/pdf\<close>)\<close>

record PercentRect =
  leftPct :: jsnum
  topPct :: jsnum
  widthPct :: jsnum
  heightPct :: jsnum

record PixelRect =
  left :: jsnum
  top' :: jsnum
  width :: jsnum
  height :: jsnum

text \<open>\<open>FieldValue = string | boolean | null\<close>\<close>

datatype FieldValue = VString string | VBool bool | VNull

text \<open>
  \<open>PdfField\<close>.  The field \<open>value\<close> of the source is \<open>fvalue\<close> here; an optional property
  is an \<open>option\<close>; \<open>type\<close> is any string, as the source's \<open>PdfFieldType | string\<close>.
\<close>

record PdfField =
  name :: string
  type :: string
  coordinates :: "jsnum list"
  signatureCoordinates :: "jsnum list option"
  fvalue :: FieldValue
  page :: jsnum
  isMemo :: "bool option"
  isDate :: "bool option"
  relativeCoordinates :: "PercentRect option"
  scaledCoordinates :: "PixelRect option"
  metadata :: "(string \<times> json) list option"

text \<open>\<open>ViewportMeta\<close>, which is also the shape of the controller's \<open>viewport\<close>.\<close>

record Viewport =
  width :: jsnum
  height :: jsnum
  scale :: jsnum
  rotation :: "jsnum option"

record OpenPdfInstanceRequest =
  fileName :: string
  sheetId :: jsnum
  pdfFolder :: string
  tag :: "string option"

record OpenPdfInstanceResult =
  localPath :: string
  extractedFields :: "PdfField list"
  template :: "PdfField list"

datatype SignatureMode = ModeSingle | ModeAll

record SaveSignatureArgs =
  signatureBase64 :: string
  mode :: SignatureMode
  targetFieldName :: "string option"

section \<open>The controller (\<open>application/AttachedDocEditorController.ts\<close>)\<close>

record AttachedDocEditorSnapshot =
  fileName :: "string option"
  localPath :: "string option"
  pageNumber :: jsnum
  scale :: jsnum
  rendererReady :: bool
  overlaysVisible :: bool
  isDirty :: bool
  fields' :: "PdfField list"
  selectedFieldName :: "string option"
  viewport :: "Viewport option"
  status :: "string option"

text \<open>
  Everything the controller does to the outside is a call on one of its ports.  Each such
  call is recorded, in order, as an \<open>effect\<close>: the snapshot, log and error hooks
  (\<open>onSnapshot\<close>, \<open>onLog\<close>, \<open>onError\<close>; a hook that is not supplied ignores the call), the
  overlay gate, the instance manager, the template store, the field writer, the clock, the
  redacted file read and \<open>postMessage\<close> on the attached transport (a transport is named by
  a number).
\<close>

datatype effect =
    OnSnapshot AttachedDocEditorSnapshot
  | OnLog string "(string \<times> json) list"
  | OnError exn
  | MarkTick string
  | MarkRenderDone
  | MaskOverlays string
  | RequestUnmask string
  | InstanceOpen OpenPdfInstanceRequest
  | PutTemplate string "PdfField list"
  | WriteText string PdfField string
  | WriteCheckbox string PdfField bool
  | WriteSignature string string SignatureMode "string option"
  | WriterClearForm string "PdfField list"
  | ReadPdfAsBase64 string
  | PostMessage nat string
  | SetTimeout jsnum

text \<open>
  What the ports answer (\<open>AttachedDocEditorDeps\<close>).  A port that reaches outside the
  process answers from the calls made so far and its arguments; a rejected promise or a
  thrown error is an \<open>exn\<close>.  The instance manager, the field writer, the coordinate
  transform and the file read may throw; the calls that return nothing (the hooks, the
  gate's \<open>markTick\<close>, \<open>markRenderDone\<close>, \<open>maskOverlays\<close> and \<open>requestUnmask\<close>,
  \<open>putTemplate\<close>, \<open>postMessage\<close>) and \<open>serializeCommand\<close> are taken to return, and
  \<open>clock.setTimeout\<close> to keep its callback for later.  \<open>readPdfAsBase64\<close> is a private
  method whose body the repository redacts (the published body always throws,
  \<open>readPdfAsBase64_published\<close>); it is taken with the ports.
\<close>

record Deps =
  renderer_parseInboundMessage :: "string \<Rightarrow> RendererInboundMessage option"
  renderer_serializeCommand :: "RendererOutboundCommand \<Rightarrow> string"
  instanceManager_open ::
    "effect list \<Rightarrow> OpenPdfInstanceRequest \<Rightarrow> exn + OpenPdfInstanceResult"
  fieldWriter_writeText :: "effect list \<Rightarrow> string \<Rightarrow> PdfField \<Rightarrow> string \<Rightarrow> exn option"
  fieldWriter_writeCheckbox :: "effect list \<Rightarrow> string \<Rightarrow> PdfField \<Rightarrow> bool \<Rightarrow> exn option"
  fieldWriter_writeSignature ::
    "effect list \<Rightarrow> string \<Rightarrow> string \<Rightarrow> SignatureMode \<Rightarrow> string option \<Rightarrow> exn option"
  fieldWriter_clearForm :: "effect list \<Rightarrow> string \<Rightarrow> PdfField list \<Rightarrow> exn option"
  coordTransform_toPixelRect :: "PercentRect \<Rightarrow> Viewport \<Rightarrow> exn + PixelRect"
  overlayGate_canShowOverlays :: "effect list \<Rightarrow> bool"
  readPdfAsBase64 :: "effect list \<Rightarrow> string \<Rightarrow> exn + string"

definition readPdfAsBase64_published :: "effect list \<Rightarrow> string \<Rightarrow> exn + string" where
  "readPdfAsBase64_published tr p =
     Inl (Error ''REDACTED: readPdfAsBase64(localPath) is private implementation'')"

text \<open>
  The private fields of the class (\<open>fields'\<close> is the source's \<open>fields\<close>, a name the
  record package keeps for itself).
\<close>

record Controller =
  transport :: "nat option"
  fileName :: "string option"
  localPath :: "string option"
  pageNumber :: jsnum
  scale :: jsnum
  rendererReady :: bool
  overlaysVisible :: bool
  isDirty :: bool
  fields' :: "PdfField list"
  selectedFieldName :: "string option"
  viewport :: "Viewport option"
  status :: "string option"

text \<open>
  The controller, the calls it has made, and the number of callbacks handed to
  \<open>clock.setTimeout\<close> that have not run yet.
\<close>

record World =
  ctl :: Controller
  trace :: "effect list"
  timeouts :: nat

definition ellipsis :: string where
  "ellipsis = [CHR 0xE2, CHR 0x80, CHR 0xA6]"

definition getSnapshot :: "Controller \<Rightarrow> AttachedDocEditorSnapshot" where
  "getSnapshot c =
     \<lparr> AttachedDocEditorSnapshot.fileName = fileName c,
       localPath = localPath c,
       pageNumber = pageNumber c,
       scale = scale c,
       rendererReady = rendererReady c,
       overlaysVisible = overlaysVisible c,
       isDirty = isDirty c,
       fields' = fields' c,
       selectedFieldName = selectedFieldName c,
       viewport = viewport c,
       status = status c \<rparr>"

definition call :: "effect \<Rightarrow> World \<Rightarrow> World" where
  "call e w = w\<lparr>trace := trace w @ [e]\<rparr>"

definition emit :: "World \<Rightarrow> World" where
  "emit w = call (OnSnapshot (getSnapshot (ctl w))) w"

definition set_status :: "string \<Rightarrow> World \<Rightarrow> World" where
  "set_status s w = ctl_update (\<lambda>c. c\<lparr>status := Some s\<rparr>) w"

text \<open>The field initialisers and the constructor, which emits once.\<close>

definition new_controller :: World where
  "new_controller =
     emit \<lparr> ctl = \<lparr> transport = None, fileName = None, localPath = None,
                    pageNumber = Num 1, scale = Num 1, rendererReady = False,
                    overlaysVisible = False, isDirty = False, fields' = [],
                    selectedFieldName = None, viewport = None, status = None \<rparr>,
            trace = [], timeouts = 0 \<rparr>"

definition attachRendererTransport :: "nat \<Rightarrow> World \<Rightarrow> World" where
  "attachRendererTransport t w = ctl_update (\<lambda>c. c\<lparr>transport := Some t\<rparr>) w"

text \<open>\<open>!s\<close> for a \<open>string | null\<close> (or \<open>string | undefined\<close>).\<close>

definition falsy :: "string option \<Rightarrow> bool" where
  "falsy s = (s = None \<or> s = Some [])"

definition mustFindField :: "Controller \<Rightarrow> string \<Rightarrow> exn + PdfField" where
  "mustFindField c n =
     (case find (\<lambda>x. name x = n) (fields' c) of
        None \<Rightarrow> Inl (Error (''Field not found: '' @ n))
      | Some f \<Rightarrow> Inr f)"

text \<open>
  \<open>this.fields.map(...)\<close> of \<open>recomputeScaledRectsIfPossible\<close>: the callback may throw, and
  then \<open>map\<close> throws at the first such field.
\<close>

fun scale_fields ::
  "(PercentRect \<Rightarrow> Viewport \<Rightarrow> exn + PixelRect) \<Rightarrow> Viewport \<Rightarrow> PdfField list
     \<Rightarrow> exn + PdfField list" where
  "scale_fields toPx vp [] = Inr []"
| "scale_fields toPx vp (f # fs) =
     (case relativeCoordinates f of
        None \<Rightarrow>
          (case scale_fields toPx vp fs of
             Inl e \<Rightarrow> Inl e
           | Inr fs' \<Rightarrow> Inr (f # fs'))
      | Some rc \<Rightarrow>
          (case toPx rc vp of
             Inl e \<Rightarrow> Inl e
           | Inr scaled \<Rightarrow>
               (case scale_fields toPx vp fs of
                  Inl e \<Rightarrow> Inl e
                | Inr fs' \<Rightarrow> Inr (f\<lparr>scaledCoordinates := Some scaled\<rparr> # fs'))))"

definition recomputeScaledRectsIfPossible :: "Deps \<Rightarrow> World \<Rightarrow> exn option \<times> World" where
  "recomputeScaledRectsIfPossible d w =
     (case viewport (ctl w) of
        None \<Rightarrow> (None, w)
      | Some vp \<Rightarrow>
          (case scale_fields (coordTransform_toPixelRect d) vp (fields' (ctl w)) of
             Inl e \<Rightarrow> (Some e, w)
           | Inr fs \<Rightarrow> (None, ctl_update (\<lambda>c. c\<lparr>fields' := fs\<rparr>) w)))"

text \<open>\<open>Map.set\<close> keeps the last field of a name; \<open>map_of\<close> finds the first.\<close>

definition layerValues :: "PdfField list \<Rightarrow> PdfField list \<Rightarrow> PdfField list" where
  "layerValues templ extracted =
     map (\<lambda>t. case map_of (rev (map (\<lambda>f. (name f, f)) extracted)) (name t) of
                 Some found \<Rightarrow> t\<lparr>fvalue := fvalue found\<rparr>
               | None \<Rightarrow> t) templ"

definition normalizeTemplate :: "PdfField list \<Rightarrow> PdfField list" where
  "normalizeTemplate fs = fs"

definition maskOverlaysForNavigation :: "string \<Rightarrow> World \<Rightarrow> World" where
  "maskOverlaysForNavigation reason w =
     ctl_update (\<lambda>c. c\<lparr>overlaysVisible := False\<rparr>) (call (MaskOverlays reason) w)"

definition sendRendererCommand :: "Deps \<Rightarrow> RendererOutboundCommand \<Rightarrow> World \<Rightarrow> World" where
  "sendRendererCommand d cmd w =
     (case transport (ctl w) of
        None \<Rightarrow> w
      | Some t \<Rightarrow> call (PostMessage t (renderer_serializeCommand d cmd)) w)"

text \<open>
  \<open>loadIntoRenderer\<close> is \<open>async\<close>: it runs up to its \<open>await\<close> when it is called
  (\<open>loadIntoRenderer_begin\<close>: the three guards and the start of the read), and the rest when
  the read has settled (\<open>loadIntoRenderer_resume\<close>).  A caller that awaits it runs both in
  a row.  Nothing else runs in between: the model takes every operation as one step.
\<close>

definition loadIntoRenderer_begin :: "Deps \<Rightarrow> World \<Rightarrow> (exn + string) option \<times> World" where
  "loadIntoRenderer_begin d w =
     (if transport (ctl w) = None then (None, w)
      else if \<not> rendererReady (ctl w) then (None, w)
      else if falsy (localPath (ctl w)) then (None, w)
      else
        (let p = the (localPath (ctl w));
             w1 = call (ReadPdfAsBase64 p) w
         in (Some (readPdfAsBase64 d (trace w1) p), w1)))"

definition loadIntoRenderer_resume ::
  "Deps \<Rightarrow> (exn + string) option \<Rightarrow> World \<Rightarrow> exn option \<times> World" where
  "loadIntoRenderer_resume d r w =
     (case r of
        None \<Rightarrow> (None, w)
      | Some (Inl e) \<Rightarrow> (Some e, w)
      | Some (Inr base64) \<Rightarrow> (None, sendRendererCommand d (LOAD_PDF_BASE64 base64) w))"

definition loadIntoRenderer :: "Deps \<Rightarrow> World \<Rightarrow> exn option \<times> World" where
  "loadIntoRenderer d w =
     (case loadIntoRenderer_begin d w of (r, w1) \<Rightarrow> loadIntoRenderer_resume d r w1)"

text \<open>The callback handed to \<open>clock.setTimeout\<close>, and \<open>refreshRendererAfterSave\<close>.\<close>

definition refresh_complete :: "Deps \<Rightarrow> World \<Rightarrow> World" where
  "refresh_complete d w =
     (let w1 = call (RequestUnmask ''refresh-complete'') w;
          w2 = ctl_update
                 (\<lambda>c. c\<lparr>overlaysVisible := overlayGate_canShowOverlays d (trace w1)\<rparr>) w1
      in emit w2)"

definition refreshRendererAfterSave :: "World \<Rightarrow> World" where
  "refreshRendererAfterSave w =
     (let w1 = call (MaskOverlays ''refresh-after-save'') w;
          w2 = ctl_update (\<lambda>c. c\<lparr>overlaysVisible := False\<rparr>) w1;
          w3 = emit w2;
          w4 = call (SetTimeout (Num 0)) w3
      in w4\<lparr>timeouts := Suc (timeouts w4)\<rparr>)"

text \<open>
  The \<open>catch\<close> block shared by the five asynchronous operations: set the status, emit,
  call \<open>onError\<close>, throw again.
\<close>

definition catch_rethrow :: "string \<Rightarrow> exn option \<times> World \<Rightarrow> exn option \<times> World" where
  "catch_rethrow msg r =
     (case r of
        (None, w) \<Rightarrow> (None, w)
      | (Some e, w) \<Rightarrow> (Some e, call (OnError e) (emit (set_status msg w))))"

definition openDocument_try ::
  "Deps \<Rightarrow> OpenPdfInstanceRequest \<Rightarrow> World \<Rightarrow> exn option \<times> World" where
  "openDocument_try d req w =
     (let w1 = emit (set_status (''Opening document'' @ ellipsis) w);
          w2 = call (InstanceOpen req) w1
      in case instanceManager_open d (trace w2) req of
           Inl e \<Rightarrow> (Some e, w2)
         | Inr res \<Rightarrow>
             (let w3 = ctl_update
                         (\<lambda>c. c\<lparr>fileName := Some (OpenPdfInstanceRequest.fileName req),
                                localPath := Some (OpenPdfInstanceResult.localPath res)\<rparr>) w2;
                  w4 = call (PutTemplate (OpenPdfInstanceRequest.fileName req)
                               (template res)) w3;
                  w5 = ctl_update
                         (\<lambda>c. c\<lparr>fields' := layerValues (template res) (extractedFields res)\<rparr>)
                         w4;
                  w6 = ctl_update (\<lambda>c. c\<lparr>fields' := normalizeTemplate (fields' c)\<rparr>) w5
              in case recomputeScaledRectsIfPossible d w6 of
                   (Some e, w7) \<Rightarrow> (Some e, w7)
                 | (None, w7) \<Rightarrow>
                     (case loadIntoRenderer d w7 of
                        (Some e, w8) \<Rightarrow> (Some e, w8)
                      | (None, w8) \<Rightarrow> (None, emit (set_status ''Ready'' w8)))))"

definition openDocument ::
  "Deps \<Rightarrow> OpenPdfInstanceRequest \<Rightarrow> World \<Rightarrow> exn option \<times> World" where
  "openDocument d req w = catch_rethrow ''Error opening document'' (openDocument_try d req w)"

text \<open>
  \<open>onRendererMessage\<close> has no \<open>try\<close>: what \<open>toPixelRect\<close> throws leaves the method.  In the
  \<open>READY\<close> case the promise of \<open>loadIntoRenderer\<close> is dropped (\<open>void\<close>), so a failed read is
  not an error of this method, and the command is posted after the \<open>emit\<close>.
\<close>

definition onRendererMessage :: "Deps \<Rightarrow> string \<Rightarrow> World \<Rightarrow> exn option \<times> World" where
  "onRendererMessage d raw w =
     (case renderer_parseInboundMessage d raw of
        None \<Rightarrow> (None, w)
      | Some msg \<Rightarrow>
          (let w1 = call (OnLog ''Renderer message'' [(''msgType'', JString (msg_type msg))]) w;
               w2 = call (MarkTick (msg_type msg)) w1
           in case msg of
                READY \<Rightarrow>
                  (let w3 = ctl_update (\<lambda>c. c\<lparr>rendererReady := True\<rparr>) w2;
                       (r, w4) = loadIntoRenderer_begin d w3;
                       w5 = emit w4
                   in (None, snd (loadIntoRenderer_resume d r w5)))
              | PDF_DIMENSIONS wd ht sc rot \<Rightarrow>
                  (let w3 = ctl_update
                              (\<lambda>c. c\<lparr>viewport :=
                                       Some \<lparr> width = wd, height = ht, scale = sc,
                                              rotation = rot \<rparr>\<rparr>) w2;
                       w4 = call (MaskOverlays ''dims-changed'') w3;
                       w5 = ctl_update (\<lambda>c. c\<lparr>overlaysVisible := False\<rparr>) w4
                   in case recomputeScaledRectsIfPossible d w5 of
                        (Some e, w6) \<Rightarrow> (Some e, w6)
                      | (None, w6) \<Rightarrow> (None, emit w6))
              | RENDER_DONE \<Rightarrow>
                  (let w3 = call MarkRenderDone w2;
                       w4 = call (RequestUnmask ''render-done'') w3;
                       w5 = ctl_update
                              (\<lambda>c. c\<lparr>overlaysVisible :=
                                       overlayGate_canShowOverlays d (trace w4)\<rparr>) w4
                   in (None, emit w5))
              | READY_FOR_OVERLAYS \<Rightarrow>
                  (let w3 = call (RequestUnmask ''renderer-ready-for-overlays'') w2;
                       w4 = ctl_update
                              (\<lambda>c. c\<lparr>overlaysVisible :=
                                       overlayGate_canShowOverlays d (trace w3)\<rparr>) w3
                   in (None, emit w4))
              | DEBUG_PAGE_COUNT pages \<Rightarrow>
                  (None, call (OnLog ''Renderer page count'' [(''pages'', JNumber pages)]) w2)))"

definition setPage :: "Deps \<Rightarrow> jsnum \<Rightarrow> World \<Rightarrow> World" where
  "setPage d n w =
     (let w1 = ctl_update (\<lambda>c. c\<lparr>pageNumber := Math_max (Num 1) (Math_floor n)\<rparr>) w;
          w2 = maskOverlaysForNavigation ''page-change'' w1;
          w3 = sendRendererCommand d (SET_PAGE (pageNumber (ctl w2))) w2
      in emit w3)"

definition setScale :: "Deps \<Rightarrow> jsnum \<Rightarrow> World \<Rightarrow> World" where
  "setScale d s w =
     (let w1 = ctl_update (\<lambda>c. c\<lparr>scale := Math_max (Num (1 / 10)) s\<rparr>) w;
          w2 = maskOverlaysForNavigation ''scale-change'' w1;
          w3 = sendRendererCommand d (SET_SCALE (Controller.scale (ctl w2))) w2
      in emit w3)"

definition selectField :: "string option \<Rightarrow> World \<Rightarrow> World" where
  "selectField fieldName w = emit (ctl_update (\<lambda>c. c\<lparr>selectedFieldName := fieldName\<rparr>) w)"

definition getSelectedField :: "Controller \<Rightarrow> PdfField option" where
  "getSelectedField c =
     (if falsy (selectedFieldName c) then None
      else find (\<lambda>f. Some (name f) = selectedFieldName c) (fields' c))"

definition saveText_try :: "Deps \<Rightarrow> string \<Rightarrow> string \<Rightarrow> World \<Rightarrow> exn option \<times> World" where
  "saveText_try d fieldName v w =
     (case mustFindField (ctl w) fieldName of
        Inl e \<Rightarrow> (Some e, w)
      | Inr field \<Rightarrow>
          if falsy (localPath (ctl w)) then (Some (Error ''No localPath''), w)
          else
            (let p = the (localPath (ctl w));
                 w1 = set_status (''Saving text'' @ ellipsis) w;
                 w2 = ctl_update (\<lambda>c. c\<lparr>isDirty := True\<rparr>) w1;
                 w3 = maskOverlaysForNavigation ''save-text'' w2;
                 w4 = emit w3;
                 w5 = call (WriteText p field v) w4
             in case fieldWriter_writeText d (trace w5) p field v of
                  Some e \<Rightarrow> (Some e, w5)
                | None \<Rightarrow>
                    (let w6 = ctl_update
                                (\<lambda>c. c\<lparr>fields' :=
                                         map (\<lambda>f. if name f = fieldName
                                                   then f\<lparr>fvalue := VString v\<rparr> else f)
                                           (fields' c)\<rparr>) w5;
                         w7 = refreshRendererAfterSave w6
                     in (None, emit (set_status ''Saved'' w7)))))"

definition saveText :: "Deps \<Rightarrow> string \<Rightarrow> string \<Rightarrow> World \<Rightarrow> exn option \<times> World" where
  "saveText d fieldName v w = catch_rethrow ''Error saving text'' (saveText_try d fieldName v w)"

text \<open>\<open>Boolean(field.value)\<close>\<close>

fun Boolean_js :: "FieldValue \<Rightarrow> bool" where
  "Boolean_js (VString s) = (s \<noteq> [])"
| "Boolean_js (VBool b) = b"
| "Boolean_js VNull = False"

definition onCheckboxDomainRulesApplied :: "string \<Rightarrow> bool \<Rightarrow> World \<Rightarrow> World" where
  "onCheckboxDomainRulesApplied fieldName v w = w"

definition toggleCheckbox_try ::
  "Deps \<Rightarrow> string \<Rightarrow> bool option \<Rightarrow> World \<Rightarrow> exn option \<times> World" where
  "toggleCheckbox_try d fieldName nextValue w =
     (case mustFindField (ctl w) fieldName of
        Inl e \<Rightarrow> (Some e, w)
      | Inr field \<Rightarrow>
          if falsy (localPath (ctl w)) then (Some (Error ''No localPath''), w)
          else
            (let p = the (localPath (ctl w));
                 v = (case nextValue of
                        Some b \<Rightarrow> b
                      | None \<Rightarrow> \<not> Boolean_js (fvalue field));
                 w1 = set_status (''Saving checkbox'' @ ellipsis) w;
                 w2 = ctl_update (\<lambda>c. c\<lparr>isDirty := True\<rparr>) w1;
                 w3 = maskOverlaysForNavigation ''save-checkbox'' w2;
                 w4 = emit w3;
                 w5 = call (WriteCheckbox p field v) w4
             in case fieldWriter_writeCheckbox d (trace w5) p field v of
                  Some e \<Rightarrow> (Some e, w5)
                | None \<Rightarrow>
                    (let w6 = ctl_update
                                (\<lambda>c. c\<lparr>fields' :=
                                         map (\<lambda>f. if name f = fieldName
                                                   then f\<lparr>fvalue := VBool v\<rparr> else f)
                                           (fields' c)\<rparr>) w5;
                         w7 = onCheckboxDomainRulesApplied fieldName v w6;
                         w8 = refreshRendererAfterSave w7
                     in (None, emit (set_status ''Saved'' w8)))))"

definition toggleCheckbox ::
  "Deps \<Rightarrow> string \<Rightarrow> bool option \<Rightarrow> World \<Rightarrow> exn option \<times> World" where
  "toggleCheckbox d fieldName nextValue w =
     catch_rethrow ''Error saving checkbox'' (toggleCheckbox_try d fieldName nextValue w)"

definition saveSignature_try :: "Deps \<Rightarrow> SaveSignatureArgs \<Rightarrow> World \<Rightarrow> exn option \<times> World" where
  "saveSignature_try d args w =
     (if falsy (localPath (ctl w)) then (Some (Error ''No localPath''), w)
      else
        (let p = the (localPath (ctl w));
             w1 = set_status (''Saving signature'' @ ellipsis) w;
             w2 = ctl_update (\<lambda>c. c\<lparr>isDirty := True\<rparr>) w1;
             w3 = maskOverlaysForNavigation ''save-signature'' w2;
             w4 = emit w3;
             w5 = call (WriteSignature p (signatureBase64 args) (mode args)
                          (targetFieldName args)) w4
         in case fieldWriter_writeSignature d (trace w5) p (signatureBase64 args) (mode args)
                   (targetFieldName args) of
              Some e \<Rightarrow> (Some e, w5)
            | None \<Rightarrow>
                (let w6 =
                       (if mode args = ModeSingle \<and> \<not> falsy (targetFieldName args) then
                          ctl_update
                            (\<lambda>c. c\<lparr>fields' :=
                                     map (\<lambda>f. if Some (name f) = targetFieldName args
                                               then f\<lparr>fvalue := VString ''SIGNED''\<rparr> else f)
                                       (fields' c)\<rparr>) w5
                        else if mode args = ModeAll then
                          ctl_update
                            (\<lambda>c. c\<lparr>fields' :=
                                     map (\<lambda>f. if type f = ''PDFSignature''
                                               then f\<lparr>fvalue := VString ''SIGNED''\<rparr> else f)
                                       (fields' c)\<rparr>) w5
                        else w5);
                     w7 = refreshRendererAfterSave w6
                 in (None, emit (set_status ''Saved'' w7)))))"

definition saveSignature :: "Deps \<Rightarrow> SaveSignatureArgs \<Rightarrow> World \<Rightarrow> exn option \<times> World" where
  "saveSignature d args w =
     catch_rethrow ''Error saving signature'' (saveSignature_try d args w)"

text \<open>The callback of \<open>this.fields.map\<close> in \<open>clearForm\<close>.\<close>

definition clear_field :: "PdfField \<Rightarrow> PdfField" where
  "clear_field f =
     (if type f = ''PDFCheckBox'' then f\<lparr>fvalue := VBool False\<rparr>
      else if type f = ''PDFTextField'' then f\<lparr>fvalue := VString []\<rparr>
      else if type f = ''PDFSignature'' then f\<lparr>fvalue := VNull\<rparr>
      else f\<lparr>fvalue := VNull\<rparr>)"

definition clearForm_try :: "Deps \<Rightarrow> World \<Rightarrow> exn option \<times> World" where
  "clearForm_try d w =
     (if falsy (localPath (ctl w)) then (Some (Error ''No localPath''), w)
      else
        (let p = the (localPath (ctl w));
             w1 = set_status (''Clearing form'' @ ellipsis) w;
             w2 = ctl_update (\<lambda>c. c\<lparr>isDirty := True\<rparr>) w1;
             w3 = maskOverlaysForNavigation ''clear-form'' w2;
             w4 = emit w3;
             w5 = call (WriterClearForm p (fields' (ctl w4))) w4
         in case fieldWriter_clearForm d (trace w5) p (fields' (ctl w4)) of
              Some e \<Rightarrow> (Some e, w5)
            | None \<Rightarrow>
                (let w6 = ctl_update (\<lambda>c. c\<lparr>fields' := map clear_field (fields' c)\<rparr>) w5;
                     w7 = refreshRendererAfterSave w6
                 in (None, emit (set_status ''Cleared'' w7)))))"

definition clearForm :: "Deps \<Rightarrow> World \<Rightarrow> exn option \<times> World" where
  "clearForm d w = catch_rethrow ''Error clearing form'' (clearForm_try d w)"

definition requestClose :: "Controller \<Rightarrow> bool \<times> string option" where
  "requestClose c =
     (if isDirty c then (False, Some ''Unsaved changes present'') else (True, None))"

text \<open>
  One step of a session: a public method is called, or the clock runs a callback it was
  handed (when one is waiting).
\<close>

datatype Event =
    AttachRendererTransport nat
  | OpenDocument OpenPdfInstanceRequest
  | RendererMessage string
  | SetPage jsnum
  | SetScale jsnum
  | SelectField "string option"
  | SaveText string string
  | ToggleCheckbox string "bool option"
  | SaveSignature SaveSignatureArgs
  | ClearForm
  | TimeoutFires

fun step :: "Deps \<Rightarrow> Event \<Rightarrow> World \<Rightarrow> exn option \<times> World" where
  "step d (AttachRendererTransport t) w = (None, attachRendererTransport t w)"
| "step d (OpenDocument req) w = openDocument d req w"
| "step d (RendererMessage raw) w = onRendererMessage d raw w"
| "step d (SetPage n) w = (None, setPage d n w)"
| "step d (SetScale s) w = (None, setScale d s w)"
| "step d (SelectField n) w = (None, selectField n w)"
| "step d (SaveText n v) w = saveText d n v w"
| "step d (ToggleCheckbox n b) w = toggleCheckbox d n b w"
| "step d (SaveSignature args) w = saveSignature d args w"
| "step d ClearForm w = clearForm d w"
| "step d TimeoutFires w =
     (if timeouts w = 0 then (None, w)
      else (None, refresh_complete d (w\<lparr>timeouts := timeouts w - 1\<rparr>)))"

text \<open>A run of steps; an operation that throws does not stop the session.\<close>

fun run :: "Deps \<Rightarrow> Event list \<Rightarrow> World \<Rightarrow> World" where
  "run d [] w = w"
| "run d (e # es) w = run d es (snd (step d e w))"

section \<open>A sample session\<close>

text \<open>
  Concrete ports and a concrete document, for running the model: four fields (a text
  field, a check box, a signature and a radio button), an instance manager and a field
  writer that always succeed, and a coordinate transform that throws on a viewport with a
  \<open>NaN\<close> in it (\<open>plain_toPixelRect\<close> is the same transform without that check).  The
  gate's answer and the file read are left open.  Messages are parsed by
  \<open>parseRendererInboundMessage\<close> over the reference \<open>JSON.parse\<close>; no sample message holds
  a string or an object where a number is read, and the conversion of those is fixed to
  \<open>NaN\<close>.
\<close>

definition example_field :: "string \<Rightarrow> string \<Rightarrow> FieldValue \<Rightarrow> PdfField" where
  "example_field n t v =
     \<lparr> name = n, type = t, coordinates = [Num 10, Num 20, Num 110, Num 40],
       signatureCoordinates = None, fvalue = v, page = Num 0, isMemo = None, isDate = None,
       relativeCoordinates =
         Some \<lparr> leftPct = Num (1 / 10), topPct = Num (1 / 5), widthPct = Num (1 / 2),
                heightPct = Num (1 / 20) \<rparr>,
       scaledCoordinates = None, metadata = None \<rparr>"

definition example_fields :: "PdfField list" where
  "example_fields =
     [example_field ''fullName'' ''PDFTextField'' (VString ''x''),
      example_field ''agree'' ''PDFCheckBox'' (VBool True),
      example_field ''sig'' ''PDFSignature'' (VString ''SIGNED''),
      example_field ''choice'' ''PDFRadio'' (VString ''a'')]"

definition example_request :: OpenPdfInstanceRequest where
  "example_request =
     \<lparr> OpenPdfInstanceRequest.fileName = ''form.pdf'', sheetId = Num 1, pdfFolder = ''docs'',
       tag = None \<rparr>"

definition example_result :: OpenPdfInstanceResult where
  "example_result =
     \<lparr> OpenPdfInstanceResult.localPath = ''/work/form.pdf'',
       extractedFields = example_fields, template = example_fields \<rparr>"

definition example_serialize :: "RendererOutboundCommand \<Rightarrow> string" where
  "example_serialize cmd =
     (case cmd of
        LOAD_PDF_BASE64 b \<Rightarrow> ''LOAD_PDF_BASE64 '' @ b
      | SET_PAGE n \<Rightarrow> ''SET_PAGE''
      | SET_SCALE s \<Rightarrow> ''SET_SCALE'')"

definition plain_toPixelRect :: "PercentRect \<Rightarrow> Viewport \<Rightarrow> exn + PixelRect" where
  "plain_toPixelRect rc vp =
     Inr \<lparr> left = leftPct rc, top' = topPct rc, width = Viewport.width vp,
            height = Viewport.height vp \<rparr>"

definition example_toPixelRect :: "PercentRect \<Rightarrow> Viewport \<Rightarrow> exn + PixelRect" where
  "example_toPixelRect rc vp =
     (if Viewport.width vp = NaN \<or> Viewport.height vp = NaN \<or> Viewport.scale vp = NaN
      then Inl (Error ''unusable viewport'')
      else plain_toPixelRect rc vp)"

definition example_deps ::
  "(effect list \<Rightarrow> bool) \<Rightarrow> (effect list \<Rightarrow> string \<Rightarrow> exn + string) \<Rightarrow> Deps" where
  "example_deps gate rd =
     \<lparr> renderer_parseInboundMessage = parseRendererInboundMessage JSON_parse (\<lambda>v. NaN),
       renderer_serializeCommand = example_serialize,
       instanceManager_open = (\<lambda>tr req. Inr example_result),
       fieldWriter_writeText = (\<lambda>tr p f v. None),
       fieldWriter_writeCheckbox = (\<lambda>tr p f v. None),
       fieldWriter_writeSignature = (\<lambda>tr p b m t. None),
       fieldWriter_clearForm = (\<lambda>tr p fs. None),
       coordTransform_toPixelRect = example_toPixelRect,
       overlayGate_canShowOverlays = gate,
       readPdfAsBase64 = rd \<rparr>"

text \<open>
  The ports used below: the gate never allows the overlays (\<open>quiet_deps\<close>) or always
  does (\<open>granting_deps\<close>), with the published file read; the gate never allows and the
  file read returns (\<open>reading_deps\<close>); \<open>quiet_deps\<close> with the transform that does not
  throw (\<open>lenient_deps\<close>), and with an instance manager that throws (\<open>closed_deps\<close>).
\<close>

definition quiet_deps :: Deps where
  "quiet_deps = example_deps (\<lambda>tr. False) readPdfAsBase64_published"

definition granting_deps :: Deps where
  "granting_deps = example_deps (\<lambda>tr. True) readPdfAsBase64_published"


definition lenient_deps :: Deps where
  "lenient_deps =
     (example_deps (\<lambda>tr. False) readPdfAsBase64_published)
       \<lparr>coordTransform_toPixelRect := plain_toPixelRect\<rparr>"

definition closed_deps :: Deps where
  "closed_deps =
     (example_deps (\<lambda>tr. False) readPdfAsBase64_published)
       \<lparr>instanceManager_open := (\<lambda>tr req. Inl (Error ''no working copy''))\<rparr>"

text \<open>The sample document, opened on a new controller.\<close>

definition example_session :: "Deps \<Rightarrow> World" where
  "example_session d = run d [OpenDocument example_request] new_controller"

text \<open>
  Other starting points: a transport attached and \<open>READY\<close> received, before any document
  (\<open>ready_session\<close>); the same with the sample document opened in between
  (\<open>loaded_session\<close>); the sample document opened and an 800 by 600 viewport reported
  (\<open>sized_session\<close>); a new controller that has received \<open>RENDER_DONE\<close>
  (\<open>unmasked_session\<close>).
\<close>

definition ready_session :: "Deps \<Rightarrow> World" where
  "ready_session d =
     run d [AttachRendererTransport 1, RendererMessage ''{\"type\":\"READY\"}'']
       new_controller"


definition sized_session :: "Deps \<Rightarrow> World" where
  "sized_session d =
     run d [OpenDocument example_request,
            RendererMessage
              ''{\"type\":\"PDF_DIMENSIONS\",\"width\":800,\"height\":600,\"scale\":1.5}'']
       new_controller"

definition unmasked_session :: "Deps \<Rightarrow> World" where
  "unmasked_session d =
     run d [RendererMessage ''{\"type\":\"RENDER_DONE\"}''] new_controller"

section \<open>Reading a trace\<close>

text \<open>The calls a step added, and the messages posted to the transport.\<close>

definition new_effects :: "World \<Rightarrow> World \<Rightarrow> effect list" where
  "new_effects w w' = drop (length (trace w)) (trace w')"

text \<open>The calls made when \<open>openDocument\<close> asks the instance manager.\<close>

definition trace_at_open :: "World \<Rightarrow> OpenPdfInstanceRequest \<Rightarrow> effect list" where
  "trace_at_open w req =
     trace (call (InstanceOpen req) (emit (set_status (''Opening document'' @ ellipsis) w)))"

text \<open>
  The session when \<open>openDocument\<close> has made its assignments from the instance manager's
  answer \<open>res\<close>, before it recomputes the boxes and loads the renderer.
\<close>

definition opened :: "OpenPdfInstanceRequest \<Rightarrow> OpenPdfInstanceResult \<Rightarrow> World \<Rightarrow> World" where
  "opened req res w =
     ctl_update (\<lambda>c. c\<lparr>fields' := normalizeTemplate (fields' c)\<rparr>)
       (ctl_update (\<lambda>c. c\<lparr>fields' := layerValues (template res) (extractedFields res)\<rparr>)
         (call (PutTemplate (OpenPdfInstanceRequest.fileName req) (template res))
           (ctl_update (\<lambda>c. c\<lparr>fileName := Some (OpenPdfInstanceRequest.fileName req),
                               localPath := Some (OpenPdfInstanceResult.localPath res)\<rparr>)
             (call (InstanceOpen req)
               (emit (set_status (''Opening document'' @ ellipsis) w))))))"


text \<open>The box a field gets from \<open>recomputeScaledRectsIfPossible\<close> when nothing throws.\<close>

definition rescaled ::
  "(PercentRect \<Rightarrow> Viewport \<Rightarrow> exn + PixelRect) \<Rightarrow> Viewport \<Rightarrow> PdfField \<Rightarrow> PdfField" where
  "rescaled toPx vp f =
     (case relativeCoordinates f of
        None \<Rightarrow> f
      | Some rc \<Rightarrow> f\<lparr>scaledCoordinates := Some (projr (toPx rc vp))\<rparr>)"

fun is_post :: "effect \<Rightarrow> bool" where
  "is_post (PostMessage t m) = True"
| "is_post e = False"

definition posts :: "effect list \<Rightarrow> effect list" where
  "posts tr = filter is_post tr"

section \<open>The reference \<open>JSON.parse\<close> never runs out of fuel\<close>

lemma skip_ws_le: "length (skip_ws s) \<le> length s"
  by (induction s) auto

lemma take_drop_digits: "length (takeWhile P s) + length (dropWhile P s) = length s"
  by (metis length_append takeWhile_dropWhile_id)

lemma dropWhile_le: "length (dropWhile P s) \<le> length s"
  using take_drop_digits [of P s] by linarith

lemma parse_chars_lt: "parse_chars s = Some (x, r) \<Longrightarrow> length r < length s"
proof (induction s arbitrary: x r rule: parse_chars.induct)
  case 1
  then show ?case by simp
next
  case (2 c cs)
  show ?case
    using "2.prems" "2.IH"
    by (fastforce split: if_splits list.splits option.splits prod.splits)
qed

lemma parse_fraction_le: "parse_fraction s = Some (fr, r) \<Longrightarrow> length r \<le> length s"
  using dropWhile_le [of is_digit "tl s"]
  by (auto simp: parse_fraction_def Let_def split: list.splits if_splits)

lemma parse_exponent_le: "parse_exponent s = Some (e, r) \<Longrightarrow> length r \<le> length s"
  using dropWhile_le [of is_digit "tl s"] dropWhile_le [of is_digit "tl (tl s)"]
  by (auto simp: parse_exponent_def Let_def split: list.splits if_splits)

lemma parse_number_lt: "parse_number s = Some (x, r) \<Longrightarrow> length r < length s"
proof -
  assume a: "parse_number s = Some (x, r)"
  define s1 where "s1 = (case s of [] \<Rightarrow> s | c # cs \<Rightarrow> if c = CHR ''-'' then cs else s)"
  have s1: "length s1 \<le> length s" by (auto simp: s1_def split: list.splits)
  from a have ne: "takeWhile is_digit s1 \<noteq> []"
    by (auto simp: parse_number_def s1_def Let_def split: list.splits if_splits)
  then have lt: "length (dropWhile is_digit s1) < length s1"
    using take_drop_digits [of is_digit s1] by (cases "takeWhile is_digit s1") auto
  from a obtain fr s3 e where
    f: "parse_fraction (dropWhile is_digit s1) = Some (fr, s3)" and
    e: "parse_exponent s3 = Some (e, r)"
    by (auto simp: parse_number_def s1_def Let_def split: list.splits if_splits option.splits prod.splits)
  from parse_fraction_le [OF f] parse_exponent_le [OF e] lt s1 show ?thesis by linarith
qed

lemma strip_prefix_len: "strip_prefix p s = Some r \<Longrightarrow> length r = length s - length p"
  by (auto simp: strip_prefix_def split: if_splits)

lemma parse_consumes:
  "parse_value n s = Inr (v, r) \<Longrightarrow> length r < length s"
  "parse_elements n s = Inr (vs, r') \<Longrightarrow> length r' < length s"
  "parse_members n s = Inr (ms, r'') \<Longrightarrow> length r'' < length s"
proof (induction n s and n s and n s arbitrary: v r and vs r' and ms r''
       rule: parse_value_parse_elements_parse_members.induct)
  case (1 s)
  then show ?case by simp
next
  case (2 n s)
  then obtain c cs where s: "s = c # cs" by (cases s) auto
  note sk = skip_ws_le [of cs]
  show ?case
  proof (cases "c = CHR ''{''")
    case True
    with 2 s sk show ?thesis
      by (fastforce split: list.splits if_splits sum.splits prod.splits)
  next
    case nb: False
    show ?thesis
    proof (cases "c = CHR ''[''")
      case True
      with 2 s sk nb show ?thesis
        by (fastforce split: list.splits if_splits sum.splits prod.splits)
    next
      case False
      with "2.prems" s nb show ?thesis
        by (auto split: if_splits option.splits prod.splits
            dest!: parse_chars_lt parse_number_lt strip_prefix_len)
    qed
  qed
next
  case (3 s)
  then show ?case by simp
next
  case (4 n s)
  from "4.prems" obtain v0 r0 where pv: "parse_value n s = Inr (v0, r0)"
    by (auto split: sum.splits)
  from "4.IH"(1) [OF pv] have l0: "length r0 < length s" .
  note sk = skip_ws_le [of r0]
  from "4.prems" pv obtain c cs where sw: "skip_ws r0 = c # cs"
    by (cases "skip_ws r0") auto
  show ?case
  proof (cases "c = CHR '',''")
    case True
    with "4.prems" pv sw obtain vs0 where
      pe: "parse_elements n (skip_ws cs) = Inr (vs0, r')"
      by (auto split: sum.splits)
    have "length r' < length (skip_ws cs)"
      using "4.IH"(2) [OF pv refl sw True pe] .
    with skip_ws_le [of cs] sk sw l0 show ?thesis by simp
  next
    case False
    with "4.prems" pv sw sk l0 show ?thesis
      by (auto split: if_splits)
  qed
next
  case (5 s)
  then show ?case by simp
next
  case (6 n s)
  from "6.prems" obtain qs where s: "s = CHR 0x22 # qs"
    by (cases s) (auto split: if_splits)
  from "6.prems" s obtain k r0 where pc: "parse_chars qs = Some (k, r0)"
    by (auto split: option.splits)
  from "6.prems" s pc obtain r1 where sw0: "skip_ws r0 = CHR '':'' # r1"
    by (cases "skip_ws r0") (auto split: if_splits)
  from "6.prems" s pc sw0 obtain v0 rv where pv: "parse_value n (skip_ws r1) = Inr (v0, rv)"
    by (auto split: sum.splits)
  from "6.prems" s pc sw0 pv obtain c cs where sw: "skip_ws rv = c # cs"
    by (cases "skip_ws rv") auto
  have l1: "length rv < length (skip_ws r1)"
    using "6.IH"(1) pv s pc sw0 by simp
  have chain: "length cs < length s"
    using l1 skip_ws_le [of r1] skip_ws_le [of r0] skip_ws_le [of rv] sw sw0
      parse_chars_lt [OF pc] s by simp
  show ?case
  proof (cases "c = CHR '',''")
    case True
    with "6.prems" s pc sw0 pv sw obtain ms0 where
      pm: "parse_members n (skip_ws cs) = Inr (ms0, r'')"
      by (auto split: sum.splits)
    have "length r'' < length (skip_ws cs)"
      using "6.IH"(2) s pc sw0 pv sw True pm by simp
    with chain skip_ws_le [of cs] show ?thesis by linarith
  next
    case False
    with "6.prems" s pc sw0 pv sw chain show ?thesis
      by (auto split: if_splits)
  qed
qed


lemma fuel_suffices:
  "2 * length s < n \<Longrightarrow> parse_value n s \<noteq> Inl OutOfFuel"
  "2 * length s + 1 < n \<Longrightarrow> parse_elements n s \<noteq> Inl OutOfFuel"
  "2 * length s + 1 < n \<Longrightarrow> parse_members n s \<noteq> Inl OutOfFuel"
proof (induction n s and n s and n s
       rule: parse_value_parse_elements_parse_members.induct)
  case (1 s)
  then show ?case by simp
next
  case (2 n s)
  show ?case
  proof (cases s)
    case Nil
    then show ?thesis by simp
  next
    case (Cons c cs)
    note sk = skip_ws_le [of cs]
    show ?thesis
    proof (cases "c = CHR ''{''")
      case True
      show ?thesis
      proof (cases "skip_ws cs")
        case Nil
        with True Cons show ?thesis by simp
      next
        case (Cons d ds)
        have "2 * length (d # ds) + 1 < n"
          using sk Cons \<open>s = c # cs\<close> "2.prems" by simp
        with "2.IH"(1) [OF \<open>s = c # cs\<close> True Cons] True Cons \<open>s = c # cs\<close>
        show ?thesis by (auto split: sum.splits)
      qed
    next
      case nb: False
      show ?thesis
      proof (cases "c = CHR ''[''")
        case True
        show ?thesis
        proof (cases "skip_ws cs")
          case Nil
          with True nb Cons show ?thesis by simp
        next
          case (Cons d ds)
          have "2 * length (d # ds) + 1 < n"
            using sk Cons \<open>s = c # cs\<close> "2.prems" by simp
          with "2.IH"(2) [OF \<open>s = c # cs\<close> nb True Cons] True nb Cons \<open>s = c # cs\<close>
          show ?thesis by (auto split: sum.splits)
        qed
      next
        case False
        with nb Cons show ?thesis
          by (auto split: option.splits)
      qed
    qed
  qed
next
  case (3 s)
  then show ?case by simp
next
  case (4 n s)
  have pv: "parse_value n s \<noteq> Inl OutOfFuel"
    using "4.IH"(1) "4.prems" by simp
  show ?case
  proof (cases "parse_value n s")
    case (Inl e)
    with pv show ?thesis by simp
  next
    case (Inr p)
    obtain v r where p: "p = (v, r)" by (cases p)
    from parse_consumes(1) [of n s v r] Inr p have lr: "length r < length s" by simp
    show ?thesis
    proof (cases "skip_ws r")
      case Nil
      with Inr p show ?thesis by simp
    next
      case (Cons c cs)
      show ?thesis
      proof (cases "c = CHR '',''")
        case True
        have "2 * length (skip_ws cs) + 1 < n"
          using skip_ws_le [of cs] skip_ws_le [of r] Cons lr "4.prems" by simp
        with "4.IH"(2) [OF Inr p [symmetric] Cons True] Inr p Cons True
        show ?thesis by (auto split: sum.splits)
      next
        case False
        with Inr p Cons show ?thesis by simp
      qed
    qed
  qed
next
  case (5 s)
  then show ?case by simp
next
  case (6 n s)
  show ?case
  proof (cases s)
    case Nil
    then show ?thesis by simp
  next
    case (Cons q qs)
    show ?thesis
    proof (cases "q = CHR 0x22")
      case False
      with Cons show ?thesis by simp
    next
      case q: True
      show ?thesis
      proof (cases "parse_chars qs")
        case None
        with Cons q show ?thesis by simp
      next
        case (Some kr)
        obtain k r0 where kr: "kr = (k, r0)" by (cases kr)
        from parse_chars_lt [of qs k r0] Some kr have l0: "length r0 < length qs" by simp
        show ?thesis
        proof (cases "skip_ws r0")
          case Nil
          with Cons q Some kr show ?thesis by simp
        next
          case sw0: (Cons col r1)
          show ?thesis
          proof (cases "col = CHR '':''")
            case False
            with Cons q Some kr sw0 show ?thesis by simp
          next
            case col: True
            have l1: "length (skip_ws r1) < length qs"
              using skip_ws_le [of r1] skip_ws_le [of r0] sw0 l0 by simp
            have pv: "parse_value n (skip_ws r1) \<noteq> Inl OutOfFuel"
              using "6.IH"(1) Cons q Some kr sw0 col l1 "6.prems" by simp
            show ?thesis
            proof (cases "parse_value n (skip_ws r1)")
              case (Inl e)
              with pv Cons q Some kr sw0 col show ?thesis by simp
            next
              case (Inr p)
              obtain v r where p: "p = (v, r)" by (cases p)
              from parse_consumes(1) [of n "skip_ws r1" v r] Inr p
              have lr: "length r < length (skip_ws r1)" by simp
              show ?thesis
              proof (cases "skip_ws r")
                case Nil
                with Cons q Some kr sw0 col Inr p show ?thesis by simp
              next
                case sw: (Cons c cs)
                show ?thesis
                proof (cases "c = CHR '',''")
                  case False
                  with Cons q Some kr sw0 col Inr p sw show ?thesis by simp
                next
                  case True
                  have "2 * length (skip_ws cs) + 1 < n"
                    using skip_ws_le [of cs] skip_ws_le [of r] sw lr l1 Cons "6.prems"
                    by simp
                  moreover have "2 * length (skip_ws cs) + 1 < n \<Longrightarrow>
                      parse_members n (skip_ws cs) \<noteq> Inl OutOfFuel"
                    using "6.IH"(2) Cons q Some kr sw0 col Inr p sw True by simp
                  ultimately show ?thesis
                    using Cons q Some kr sw0 col Inr p sw True
                    by (auto split: sum.splits)
                qed
              qed
            qed
          qed
        qed
      qed
    qed
  qed
qed

lemma JSON_parse_fuel:
  "parse_value (2 * length raw + 2) (skip_ws raw) \<noteq> Inl OutOfFuel"
  using fuel_suffices(1) [of "skip_ws raw" "2 * length raw + 2"] skip_ws_le [of raw]
  by simp

section \<open>The inbound parser\<close>








lemma literal_PDF_DIMENSIONS: "parseRendererInboundMessage JSON_parse co
    ''{\"type\":\"PDF_DIMENSIONS\",\"width\":800,\"height\":600,\"scale\":1.5}''
     = Some (PDF_DIMENSIONS (Num 800) (Num 600) (Num (3 / 2)) None)"
  by code_simp




section \<open>What the helpers do to the controller and to the trace\<close>

lemma ctl_call [simp]: "ctl (call e w) = ctl w"
  and trace_call [simp]: "trace (call e w) = trace w @ [e]"
  and timeouts_call [simp]: "timeouts (call e w) = timeouts w"
  by (simp_all add: call_def)

lemma ctl_emit [simp]: "ctl (emit w) = ctl w"
  and trace_emit [simp]: "trace (emit w) = trace w @ [OnSnapshot (getSnapshot (ctl w))]"
  and timeouts_emit [simp]: "timeouts (emit w) = timeouts w"
  by (simp_all add: emit_def)

lemma ctl_set_status [simp]: "ctl (set_status s w) = (ctl w)\<lparr>status := Some s\<rparr>"
  and trace_set_status [simp]: "trace (set_status s w) = trace w"
  and timeouts_set_status [simp]: "timeouts (set_status s w) = timeouts w"
  by (simp_all add: set_status_def)

lemma ctl_mask [simp]:
  "ctl (maskOverlaysForNavigation r w) = (ctl w)\<lparr>overlaysVisible := False\<rparr>"
  and trace_mask [simp]:
  "trace (maskOverlaysForNavigation r w) = trace w @ [MaskOverlays r]"
  and timeouts_mask [simp]: "timeouts (maskOverlaysForNavigation r w) = timeouts w"
  by (simp_all add: maskOverlaysForNavigation_def)

lemma ctl_refresh [simp]:
  "ctl (refreshRendererAfterSave w) = (ctl w)\<lparr>overlaysVisible := False\<rparr>"
  and trace_refresh [simp]:
  "trace (refreshRendererAfterSave w) =
     trace w @ [MaskOverlays ''refresh-after-save'',
                OnSnapshot (getSnapshot ((ctl w)\<lparr>overlaysVisible := False\<rparr>)),
                SetTimeout (Num 0)]"
  and timeouts_refresh [simp]:
  "timeouts (refreshRendererAfterSave w) = Suc (timeouts w)"
  by (simp_all add: refreshRendererAfterSave_def Let_def)

lemma ctl_send [simp]: "ctl (sendRendererCommand d cmd w) = ctl w"
  and timeouts_send [simp]: "timeouts (sendRendererCommand d cmd w) = timeouts w"
  by (simp_all add: sendRendererCommand_def split: option.splits)


lemma catch_rethrow_None [simp]:
  "catch_rethrow msg r = (None, w') \<longleftrightarrow> r = (None, w')"
  by (cases r) (auto simp: catch_rethrow_def split: option.splits)

lemma catch_rethrow_Some:
  "catch_rethrow msg r = (Some e, w') \<longleftrightarrow>
     (\<exists>w1. r = (Some e, w1) \<and> w' = call (OnError e) (emit (set_status msg w1)))"
  by (cases r) (auto simp: catch_rethrow_def split: option.splits)

lemma new_effects_append [simp]: "trace w' = trace w @ es \<Longrightarrow> new_effects w w' = es"
  by (simp add: new_effects_def)

section \<open>\<open>clearForm\<close>\<close>

lemma clearForm_try_ok:
  assumes "clearForm_try d w = (None, w')"
  shows "fields' (ctl w') = map clear_field (fields' (ctl w))"
  using assms
  by (auto simp: clearForm_try_def Let_def split: if_splits option.splits)

lemma clear_field_eq:
  "clear_field f =
     f\<lparr>fvalue := (if type f = ''PDFCheckBox'' then VBool False
                   else if type f = ''PDFTextField'' then VString []
                   else VNull)\<rparr>"
  by (simp add: clear_field_def)

lemma example_session_fields:
  "fields' (ctl (example_session (example_deps g rd))) = example_fields"
  by code_simp

lemma example_session_localPath:
  "localPath (ctl (example_session (example_deps g rd))) = Some ''/work/form.pdf''"
  by code_simp

lemma example_session_clear:
  "fst (clearForm (example_deps g rd) (example_session (example_deps g rd))) = None"
  by code_simp

text \<open>
  Claim C8.  After a \<open>clearForm\<close> that succeeds, the field list is the old one with every
  value reset by the field's type: \<open>false\<close> for a \<open>PDFCheckBox\<close>, the empty string for a
  \<open>PDFTextField\<close>, \<open>null\<close> for a \<open>PDFSignature\<close> and for every other type.  Nothing else
  of a field changes: names, types, pages and the three coordinate boxes are as before.
\<close>

theorem clearForm_resets_values:
  assumes "clearForm d w = (None, w')"
  shows "fields' (ctl w') =
           map (\<lambda>f. f\<lparr>fvalue := (if type f = ''PDFCheckBox'' then VBool False
                                  else if type f = ''PDFTextField'' then VString []
                                  else VNull)\<rparr>) (fields' (ctl w))
         \<and> map name (fields' (ctl w')) = map name (fields' (ctl w))
         \<and> map type (fields' (ctl w')) = map type (fields' (ctl w))
         \<and> map page (fields' (ctl w')) = map page (fields' (ctl w))
         \<and> map coordinates (fields' (ctl w')) = map coordinates (fields' (ctl w))
         \<and> map signatureCoordinates (fields' (ctl w'))
             = map signatureCoordinates (fields' (ctl w))
         \<and> map relativeCoordinates (fields' (ctl w'))
             = map relativeCoordinates (fields' (ctl w))
         \<and> map scaledCoordinates (fields' (ctl w')) = map scaledCoordinates (fields' (ctl w))"
proof -
  from assms have "clearForm_try d w = (None, w')"
    by (simp add: clearForm_def)
  from clearForm_try_ok [OF this]
  have eq: "fields' (ctl w') = map clear_field (fields' (ctl w))" .
  show ?thesis
    unfolding eq by (simp add: clear_field_eq comp_def)
qed

text \<open>
  The spec's example: a text field \<open>"x"\<close>, a check box \<open>true\<close>, a signature \<open>"SIGNED"\<close>
  (and a radio button) become \<open>""\<close>, \<open>false\<close>, \<open>null\<close> (and \<open>null\<close>).
\<close>

theorem clearForm_resets_values_witness:
  "fst (clearForm quiet_deps (example_session quiet_deps)) = None
   \<and> map (\<lambda>f. (name f, type f, fvalue f))
         (fields' (ctl (example_session quiet_deps)))
       = [(''fullName'', ''PDFTextField'', VString ''x''),
          (''agree'', ''PDFCheckBox'', VBool True),
          (''sig'', ''PDFSignature'', VString ''SIGNED''),
          (''choice'', ''PDFRadio'', VString ''a'')]
   \<and> map (\<lambda>f. (name f, type f, fvalue f))
         (fields' (ctl (snd (clearForm quiet_deps (example_session quiet_deps)))))
       = [(''fullName'', ''PDFTextField'', VString []),
          (''agree'', ''PDFCheckBox'', VBool False),
          (''sig'', ''PDFSignature'', VNull),
          (''choice'', ''PDFRadio'', VNull)]"
proof -
  let ?d = "example_deps (\<lambda>tr. False) readPdfAsBase64_published"
  let ?w = "example_session ?d"
  have ok: "fst (clearForm ?d ?w) = None"
    by (rule example_session_clear)
  then have h: "clearForm ?d ?w = (None, snd (clearForm ?d ?w))"
    by (metis prod.collapse)
  have f0: "fields' (ctl ?w) = example_fields"
    by (rule example_session_fields)
  from clearForm_resets_values [OF h] f0
  have "fields' (ctl (snd (clearForm ?d ?w))) =
          map (\<lambda>f. f\<lparr>fvalue := (if type f = ''PDFCheckBox'' then VBool False
                                 else if type f = ''PDFTextField'' then VString []
                                 else VNull)\<rparr>) example_fields"
    by simp
  with ok f0 show ?thesis
    unfolding quiet_deps_def
    by (simp add: example_fields_def example_field_def)
qed

section \<open>\<open>saveSignature\<close>\<close>

lemma saveSignature_try_single_no_target:
  assumes "mode args = ModeSingle" "targetFieldName args = None"
    "saveSignature_try d args w = (None, w')"
  shows "fields' (ctl w') = fields' (ctl w)"
    and "isDirty (ctl w')"
    and "\<not> overlaysVisible (ctl w')"
    and "new_effects w w' =
           [MaskOverlays ''save-signature'',
            OnSnapshot (getSnapshot ((ctl w)\<lparr>status := Some (''Saving signature'' @ ellipsis),
                                             isDirty := True, overlaysVisible := False\<rparr>)),
            WriteSignature (the (localPath (ctl w))) (signatureBase64 args) ModeSingle None,
            MaskOverlays ''refresh-after-save'',
            OnSnapshot (getSnapshot ((ctl w)\<lparr>status := Some (''Saving signature'' @ ellipsis),
                                             isDirty := True, overlaysVisible := False\<rparr>)),
            SetTimeout (Num 0),
            OnSnapshot (getSnapshot ((ctl w)\<lparr>status := Some ''Saved'',
                                             isDirty := True, overlaysVisible := False\<rparr>))]"
  using assms
  by (auto simp: saveSignature_try_def Let_def falsy_def new_effects_def getSnapshot_def
      split: if_splits option.splits)

text \<open>
  Claim C9.  A \<open>saveSignature\<close> call with mode \<open>"single"\<close> and no \<open>targetFieldName\<close> that
  succeeds leaves the field list as it was (no field is marked \<open>"SIGNED"\<close>), although the
  writer port was called (with that mode and no target), the dirty flag is set and the
  overlays are masked.
\<close>

theorem saveSignature_single_without_target:
  assumes "mode args = ModeSingle" "targetFieldName args = None"
    "saveSignature d args w = (None, w')"
  shows "fields' (ctl w') = fields' (ctl w)
         \<and> isDirty (ctl w')
         \<and> \<not> overlaysVisible (ctl w')
         \<and> WriteSignature (the (localPath (ctl w))) (signatureBase64 args) ModeSingle None
             \<in> set (new_effects w w')
         \<and> MaskOverlays ''save-signature'' \<in> set (new_effects w w')"
proof -
  from assms(3) have t: "saveSignature_try d args w = (None, w')"
    by (simp add: saveSignature_def)
  note r = saveSignature_try_single_no_target [OF assms(1,2) t]
  show ?thesis
    using r(1,2,3) by (simp add: r(4))
qed

lemma example_sign_no_target:
  "fst (saveSignature (example_deps g rd)
          \<lparr> signatureBase64 = ''AAAA'', mode = ModeSingle, targetFieldName = None \<rparr>
          (example_session (example_deps g rd))) = None"
  by code_simp

theorem saveSignature_single_without_target_witness:
  "fst (saveSignature quiet_deps
          \<lparr> signatureBase64 = ''AAAA'', mode = ModeSingle, targetFieldName = None \<rparr>
          (example_session quiet_deps)) = None
   \<and> map fvalue (fields' (ctl (snd (saveSignature quiet_deps
            \<lparr> signatureBase64 = ''AAAA'', mode = ModeSingle, targetFieldName = None \<rparr>
            (example_session quiet_deps)))))
       = [VString ''x'', VBool True, VString ''SIGNED'', VString ''a'']
   \<and> isDirty (ctl (snd (saveSignature quiet_deps
            \<lparr> signatureBase64 = ''AAAA'', mode = ModeSingle, targetFieldName = None \<rparr>
            (example_session quiet_deps))))"
proof -
  let ?d = "example_deps (\<lambda>tr. False) readPdfAsBase64_published"
  let ?a = "\<lparr> signatureBase64 = ''AAAA'', mode = ModeSingle, targetFieldName = None \<rparr>"
  let ?w = "example_session ?d"
  have ok: "fst (saveSignature ?d ?a ?w) = None"
    by (rule example_sign_no_target)
  then have h: "saveSignature ?d ?a ?w = (None, snd (saveSignature ?d ?a ?w))"
    by (metis prod.collapse)
  have f0: "fields' (ctl ?w) = example_fields"
    by (rule example_session_fields)
  from saveSignature_single_without_target [OF _ _ h] f0 ok
  show ?thesis
    unfolding quiet_deps_def
    by (simp add: example_fields_def example_field_def)
qed

section \<open>Edits that name a field\<close>

lemma mustFindField_unknown:
  "n \<notin> name ` set (fields' c) \<Longrightarrow> mustFindField c n = Inl (Error (''Field not found: '' @ n))"
proof -
  assume "n \<notin> name ` set (fields' c)"
  then have "find (\<lambda>x. name x = n) (fields' c) = None"
    by (auto simp: find_None_iff)
  then show ?thesis by (simp add: mustFindField_def)
qed

lemma saveText_unknown:
  assumes "n \<notin> name ` set (fields' (ctl w))"
  shows "saveText d n v w =
           (Some (Error (''Field not found: '' @ n)),
            call (OnError (Error (''Field not found: '' @ n)))
              (emit (set_status ''Error saving text'' w)))"
  by (simp add: saveText_def saveText_try_def mustFindField_unknown [OF assms]
      catch_rethrow_def)

lemma toggleCheckbox_unknown:
  assumes "n \<notin> name ` set (fields' (ctl w))"
  shows "toggleCheckbox d n b w =
           (Some (Error (''Field not found: '' @ n)),
            call (OnError (Error (''Field not found: '' @ n)))
              (emit (set_status ''Error saving checkbox'' w)))"
  by (simp add: toggleCheckbox_def toggleCheckbox_try_def mustFindField_unknown [OF assms]
      catch_rethrow_def)

lemma saveSignature_calls_writer:
  assumes "\<not> falsy (localPath (ctl w))"
  shows "WriteSignature (the (localPath (ctl w))) (signatureBase64 args) (mode args)
           (targetFieldName args) \<in> set (new_effects w (snd (saveSignature d args w)))"
proof -
  let ?p = "the (localPath (ctl w))"
  let ?w5 = "call (WriteSignature ?p (signatureBase64 args) (mode args) (targetFieldName args))
               (emit (maskOverlaysForNavigation ''save-signature''
                 (ctl_update (\<lambda>c. c\<lparr>isDirty := True\<rparr>)
                   (set_status (''Saving signature'' @ ellipsis) w))))"
  show ?thesis
  proof (cases "fieldWriter_writeSignature d (trace ?w5) ?p (signatureBase64 args) (mode args)
                  (targetFieldName args)")
    case None
    with assms show ?thesis
      by (simp add: saveSignature_def saveSignature_try_def Let_def catch_rethrow_def
          new_effects_def)
  next
    case (Some e)
    with assms show ?thesis
      by (simp add: saveSignature_def saveSignature_try_def Let_def catch_rethrow_def
          new_effects_def)
  qed
qed

text \<open>
  Claim C6, as the code has it.  When no field of the current field list has the given
  name, \<open>saveText\<close> and \<open>toggleCheckbox\<close> throw \<open>Error("Field not found: <name>")\<close>; the only
  calls they make are the snapshot and error hooks of the \<open>catch\<close> block (so no call on the
  field writer), and the field list and the dirty flag are as before.  \<open>saveSignature\<close>
  looks no field up: whenever a working copy is open it hands the mode and the target
  name to the field writer, whatever the field list holds.
\<close>

theorem edit_unknown_field_rejected:
  assumes "n \<notin> name ` set (fields' (ctl w))"
  shows "fst (saveText d n v w) = Some (Error (''Field not found: '' @ n))
         \<and> fields' (ctl (snd (saveText d n v w))) = fields' (ctl w)
         \<and> isDirty (ctl (snd (saveText d n v w))) = isDirty (ctl w)
         \<and> new_effects w (snd (saveText d n v w)) =
             [OnSnapshot (getSnapshot ((ctl w)\<lparr>status := Some ''Error saving text''\<rparr>)),
              OnError (Error (''Field not found: '' @ n))]
         \<and> fst (toggleCheckbox d n b w) = Some (Error (''Field not found: '' @ n))
         \<and> fields' (ctl (snd (toggleCheckbox d n b w))) = fields' (ctl w)
         \<and> isDirty (ctl (snd (toggleCheckbox d n b w))) = isDirty (ctl w)
         \<and> new_effects w (snd (toggleCheckbox d n b w)) =
             [OnSnapshot (getSnapshot ((ctl w)\<lparr>status := Some ''Error saving checkbox''\<rparr>)),
              OnError (Error (''Field not found: '' @ n))]
         \<and> (\<not> falsy (localPath (ctl w)) \<longrightarrow>
              WriteSignature (the (localPath (ctl w))) (signatureBase64 args) (mode args)
                (targetFieldName args) \<in> set (new_effects w (snd (saveSignature d args w))))"
  using saveSignature_calls_writer [of w args d]
  by (simp add: saveText_unknown [OF assms] toggleCheckbox_unknown [OF assms])

lemma example_session_names:
  "name ` set (fields' (ctl (example_session (example_deps g rd))))
     = {''fullName'', ''agree'', ''sig'', ''choice''}"
  by (simp add: example_session_fields example_fields_def example_field_def)

theorem edit_unknown_field_rejected_witness:
  "''missing'' \<notin> name ` set (fields' (ctl (example_session quiet_deps)))
   \<and> fst (saveText quiet_deps ''missing'' ''Jane Doe'' (example_session quiet_deps))
       = Some (Error ''Field not found: missing'')
   \<and> fst (toggleCheckbox quiet_deps ''missing'' None (example_session quiet_deps))
       = Some (Error ''Field not found: missing'')
   \<and> map fvalue (fields' (ctl (snd
         (saveText quiet_deps ''missing'' ''Jane Doe'' (example_session quiet_deps)))))
       = [VString ''x'', VBool True, VString ''SIGNED'', VString ''a'']
   \<and> \<not> falsy (localPath (ctl (example_session quiet_deps)))
   \<and> WriteSignature ''/work/form.pdf'' ''AAAA'' ModeSingle (Some ''missing'')
       \<in> set (new_effects (example_session quiet_deps) (snd (saveSignature quiet_deps
                   \<lparr> signatureBase64 = ''AAAA'', mode = ModeSingle,
                     targetFieldName = Some ''missing'' \<rparr>
                   (example_session quiet_deps))))"
proof -
  let ?d = "example_deps (\<lambda>tr. False) readPdfAsBase64_published"
  let ?w = "example_session ?d"
  let ?a = "\<lparr> signatureBase64 = ''AAAA'', mode = ModeSingle,
              targetFieldName = Some ''missing'' \<rparr>"
  have h: "''missing'' \<notin> name ` set (fields' (ctl ?w))"
    by (simp add: example_session_names)
  have f0: "fields' (ctl ?w) = example_fields"
    by (rule example_session_fields)
  have lp: "localPath (ctl ?w) = Some ''/work/form.pdf''"
    by (rule example_session_localPath)
  then have l: "\<not> falsy (localPath (ctl ?w))"
    by (simp add: falsy_def)
  from edit_unknown_field_rejected
         [OF h, where d = ?d and v = "''Jane Doe''" and b = None and args = ?a]
       h f0 l lp
  show ?thesis
    unfolding quiet_deps_def
    by (simp add: example_fields_def example_field_def)
qed

text \<open>
  Against claim C6 as stated: \<open>saveSignature\<close> with mode \<open>"single"\<close> and a target name that
  no field has throws nothing, calls the field writer and sets the dirty flag.
\<close>

theorem saveSignature_unknown_target_counterexample:
  "''missing'' \<notin> name ` set (fields' (ctl (example_session quiet_deps)))
   \<and> fst (saveSignature quiet_deps
         \<lparr> signatureBase64 = ''AAAA'', mode = ModeSingle, targetFieldName = Some ''missing'' \<rparr>
         (example_session quiet_deps)) = None
   \<and> WriteSignature ''/work/form.pdf'' ''AAAA'' ModeSingle (Some ''missing'')
       \<in> set (new_effects (example_session quiet_deps) (snd (saveSignature quiet_deps
                   \<lparr> signatureBase64 = ''AAAA'', mode = ModeSingle,
                     targetFieldName = Some ''missing'' \<rparr>
                   (example_session quiet_deps))))
   \<and> \<not> isDirty (ctl (example_session quiet_deps))
   \<and> isDirty (ctl (snd (saveSignature quiet_deps
         \<lparr> signatureBase64 = ''AAAA'', mode = ModeSingle, targetFieldName = Some ''missing'' \<rparr>
         (example_session quiet_deps))))"
  by code_simp

section \<open>\<open>openDocument\<close>\<close>

lemma ctl_recompute:
  "ctl (snd (recomputeScaledRectsIfPossible d w)) =
     (ctl w)\<lparr>fields' := fields' (ctl (snd (recomputeScaledRectsIfPossible d w)))\<rparr>"
  by (simp add: recomputeScaledRectsIfPossible_def split: option.splits sum.splits)

lemma recompute_throws:
  "recomputeScaledRectsIfPossible d w = (Some e, w') \<Longrightarrow> w' = w"
  by (auto simp: recomputeScaledRectsIfPossible_def split: option.splits sum.splits)


lemma ctl_loadIntoRenderer [simp]: "ctl (snd (loadIntoRenderer d w)) = ctl w"
  and timeouts_loadIntoRenderer [simp]: "timeouts (snd (loadIntoRenderer d w)) = timeouts w"
  by (simp_all add: loadIntoRenderer_def loadIntoRenderer_begin_def
      loadIntoRenderer_resume_def Let_def split: option.splits sum.splits)

text \<open>The controller after \<open>openDocument\<close>, written out by where the call ends.\<close>

lemma openDocument_open_fails:
  assumes "instanceManager_open d (trace_at_open w req) req = Inl e"
  shows "openDocument d req w =
           (Some e, call (OnError e) (emit (set_status ''Error opening document''
              (call (InstanceOpen req) (emit (set_status (''Opening document'' @ ellipsis) w))))))"
  using assms
  by (simp add: openDocument_def openDocument_try_def Let_def catch_rethrow_def
      trace_at_open_def)

lemma openDocument_try_opened:
  assumes "instanceManager_open d (trace_at_open w req) req = Inr res"
  shows "openDocument_try d req w =
           (case recomputeScaledRectsIfPossible d (opened req res w) of
              (Some e, w7) \<Rightarrow> (Some e, w7)
            | (None, w7) \<Rightarrow>
                (case loadIntoRenderer d w7 of
                   (Some e, w8) \<Rightarrow> (Some e, w8)
                 | (None, w8) \<Rightarrow> (None, emit (set_status ''Ready'' w8))))"
  using assms
  by (simp add: openDocument_try_def Let_def trace_at_open_def opened_def)

lemma ctl_opened:
  "ctl (opened req res w) =
     (ctl w)\<lparr>status := Some (''Opening document'' @ ellipsis),
             fileName := Some (OpenPdfInstanceRequest.fileName req),
             localPath := Some (OpenPdfInstanceResult.localPath res),
             fields' := layerValues (template res) (extractedFields res)\<rparr>"
  by (simp add: opened_def normalizeTemplate_def)


text \<open>
  After the instance manager has answered, \<open>openDocument\<close> ends with the controller of
  \<open>opened\<close>, a field list and a status.
\<close>

lemma openDocument_after_open:
  assumes "instanceManager_open d (trace_at_open w req) req = Inr res"
  shows "\<exists>st. ctl (snd (openDocument d req w)) =
           (ctl (opened req res w))
             \<lparr>fields' := fields' (ctl (snd (recomputeScaledRectsIfPossible d (opened req res w)))),
              status := Some st\<rparr>
           \<and> (fst (openDocument d req w) \<noteq> None \<longrightarrow> st = ''Error opening document'')
           \<and> (fst (openDocument d req w) = None \<longrightarrow> st = ''Ready'')"
proof -
  let ?o = "opened req res w"
  obtain r7 w7 where rc: "recomputeScaledRectsIfPossible d ?o = (r7, w7)"
    by (cases "recomputeScaledRectsIfPossible d ?o")
  then have w7: "w7 = snd (recomputeScaledRectsIfPossible d ?o)"
    by simp
  from ctl_recompute [of d ?o] rc
  have c7: "ctl w7 = (ctl ?o)\<lparr>fields' := fields' (ctl w7)\<rparr>" by simp
  obtain r8 w8 where ld: "loadIntoRenderer d w7 = (r8, w8)"
    by (cases "loadIntoRenderer d w7")
  from ctl_loadIntoRenderer [of d w7] ld have c8: "ctl w8 = ctl w7" by simp
  show ?thesis
  proof (cases r7)
    case (Some e)
    have "openDocument d req w =
            (Some e, call (OnError e) (emit (set_status ''Error opening document'' w7)))"
      by (simp add: openDocument_def openDocument_try_opened [OF assms] rc Some
          catch_rethrow_def)
    then have "ctl (snd (openDocument d req w)) =
                 (ctl ?o)\<lparr>fields' := fields' (ctl w7), status := Some ''Error opening document''\<rparr>
               \<and> fst (openDocument d req w) \<noteq> None"
      using c7 by (metis ctl_call ctl_emit ctl_set_status fst_conv option.distinct(1) snd_conv)
    then show ?thesis
      unfolding w7 by (intro exI [of _ "''Error opening document''"]) simp
  next
    case None
    show ?thesis
    proof (cases r8)
      case (Some e)
      have "openDocument d req w =
              (Some e, call (OnError e) (emit (set_status ''Error opening document'' w8)))"
        by (simp add: openDocument_def openDocument_try_opened [OF assms] rc None ld Some
            catch_rethrow_def)
      then have "ctl (snd (openDocument d req w)) =
                   (ctl ?o)\<lparr>fields' := fields' (ctl w7),
                            status := Some ''Error opening document''\<rparr>
                 \<and> fst (openDocument d req w) \<noteq> None"
        using c7 c8
        by (metis ctl_call ctl_emit ctl_set_status fst_conv option.distinct(1) snd_conv)
      then show ?thesis
        unfolding w7 by (intro exI [of _ "''Error opening document''"]) simp
    next
      case n8: None
      have "openDocument d req w = (None, emit (set_status ''Ready'' w8))"
        by (simp add: openDocument_def openDocument_try_opened [OF assms] rc None ld n8
            catch_rethrow_def)
      then have "ctl (snd (openDocument d req w)) =
                   (ctl ?o)\<lparr>fields' := fields' (ctl w7), status := Some ''Ready''\<rparr>
                 \<and> fst (openDocument d req w) = None"
        using c7 c8 by (metis ctl_emit ctl_set_status fst_conv snd_conv)
      then show ?thesis
        unfolding w7 by (intro exI [of _ "''Ready''"]) simp
    qed
  qed
qed

lemma openDocument_frame:
  "transport (ctl (snd (openDocument d req w))) = transport (ctl w)
   \<and> pageNumber (ctl (snd (openDocument d req w))) = pageNumber (ctl w)
   \<and> Controller.scale (ctl (snd (openDocument d req w))) = Controller.scale (ctl w)
   \<and> rendererReady (ctl (snd (openDocument d req w))) = rendererReady (ctl w)
   \<and> overlaysVisible (ctl (snd (openDocument d req w))) = overlaysVisible (ctl w)
   \<and> isDirty (ctl (snd (openDocument d req w))) = isDirty (ctl w)
   \<and> selectedFieldName (ctl (snd (openDocument d req w))) = selectedFieldName (ctl w)
   \<and> viewport (ctl (snd (openDocument d req w))) = viewport (ctl w)"
proof (cases "instanceManager_open d (trace_at_open w req) req")
  case (Inl e)
  from openDocument_open_fails [OF Inl] show ?thesis by simp
next
  case (Inr res)
  from openDocument_after_open [OF Inr] obtain st where
    "ctl (snd (openDocument d req w)) =
       (ctl (opened req res w))
         \<lparr>fields' := fields' (ctl (snd (recomputeScaledRectsIfPossible d (opened req res w)))),
          status := Some st\<rparr>"
    by blast
  then show ?thesis by (simp add: ctl_opened)
qed

lemma openDocument_no_rollback:
  assumes "instanceManager_open d (trace_at_open w req) req = Inr res"
    and "fst (openDocument d req w) = Some e"
  shows "ctl (snd (openDocument d req w)) =
           (ctl w)\<lparr>fileName := Some (OpenPdfInstanceRequest.fileName req),
                   localPath := Some (OpenPdfInstanceResult.localPath res),
                   fields' := fields' (ctl (snd (recomputeScaledRectsIfPossible d
                                                   (opened req res w)))),
                   status := Some ''Error opening document''\<rparr>"
proof -
  from openDocument_after_open [OF assms(1)] assms(2)
  have "ctl (snd (openDocument d req w)) =
       (ctl (opened req res w))
         \<lparr>fields' := fields' (ctl (snd (recomputeScaledRectsIfPossible d (opened req res w)))),
          status := Some ''Error opening document''\<rparr>"
    by auto
  then show ?thesis by (simp add: ctl_opened)
qed

text \<open>
  Claim C3, as the code has it.  When \<open>instanceManager.open\<close> itself throws, the session
  is as before but for the status \<open>"Error opening document"\<close>.  When a later step throws
  (\<open>toPixelRect\<close> in the recomputation, or reading the file for the renderer), nothing is
  rolled back: \<open>fileName\<close> and \<open>localPath\<close> are those of the new document and the field
  list is the new document's (the template with the extracted values, with new boxes when
  the recomputation went through), with the error status.  Nothing but these four fields
  differs from the session before the call.
\<close>

theorem openDocument_failure:
  "(instanceManager_open d (trace_at_open w req) req = Inl e \<longrightarrow>
      fst (openDocument d req w) = Some e
      \<and> ctl (snd (openDocument d req w)) = (ctl w)\<lparr>status := Some ''Error opening document''\<rparr>)
   \<and> (instanceManager_open d (trace_at_open w req) req = Inr res
        \<and> fst (openDocument d req w) = Some e \<longrightarrow>
      ctl (snd (openDocument d req w)) =
        (ctl w)\<lparr>fileName := Some (OpenPdfInstanceRequest.fileName req),
                localPath := Some (OpenPdfInstanceResult.localPath res),
                fields' := fields' (ctl (snd (recomputeScaledRectsIfPossible d
                                                (opened req res w)))),
                status := Some ''Error opening document''\<rparr>)"
  using openDocument_open_fails [of d w req e] openDocument_no_rollback [of d w req res e]
  by simp

lemma example_open_throws:
  "fst (openDocument (example_deps g readPdfAsBase64_published) example_request
          (run (example_deps g readPdfAsBase64_published)
             [AttachRendererTransport 1, RendererMessage ''{\"type\":\"READY\"}'']
             new_controller))
     = Some (Error ''REDACTED: readPdfAsBase64(localPath) is private implementation'')"
  by code_simp

theorem openDocument_failure_witness:
  "fst (openDocument closed_deps
          example_request new_controller) = Some (Error ''no working copy'')
   \<and> ctl (snd (openDocument closed_deps example_request new_controller))
       = (ctl new_controller)\<lparr>status := Some ''Error opening document''\<rparr>
   \<and> localPath (ctl (snd (openDocument quiet_deps example_request
          (ready_session quiet_deps))))
       = Some ''/work/form.pdf''"
proof -
  let ?d = "example_deps (\<lambda>tr. False) readPdfAsBase64_published"
  let ?dx = "?d\<lparr>instanceManager_open := (\<lambda>tr req. Inl (Error ''no working copy''))\<rparr>"
  let ?w = "run ?d [AttachRendererTransport 1, RendererMessage ''{\"type\":\"READY\"}'']
              new_controller"
  let ?e = "Error ''REDACTED: readPdfAsBase64(localPath) is private implementation''"
  have h1: "instanceManager_open ?dx (trace_at_open new_controller example_request)
              example_request = Inl (Error ''no working copy'')"
    by simp
  have h2: "instanceManager_open ?d (trace_at_open ?w example_request) example_request
              = Inr example_result"
    by (simp add: example_deps_def)
  have h3: "fst (openDocument ?d example_request ?w) = Some ?e"
    by (rule example_open_throws)
  from openDocument_failure [of ?dx new_controller example_request "Error ''no working copy''"]
    h1
  have a: "fst (openDocument ?dx example_request new_controller) = Some (Error ''no working copy'')
        \<and> ctl (snd (openDocument ?dx example_request new_controller))
            = (ctl new_controller)\<lparr>status := Some ''Error opening document''\<rparr>"
    by blast
  from openDocument_failure [of ?d ?w example_request ?e example_result] h2 h3
  have "localPath (ctl (snd (openDocument ?d example_request ?w)))
          = Some (OpenPdfInstanceResult.localPath example_result)"
    by simp
  then have b: "localPath (ctl (snd (openDocument ?d example_request ?w)))
          = Some ''/work/form.pdf''"
    by (simp add: example_result_def)
  from a b show ?thesis
    unfolding quiet_deps_def closed_deps_def ready_session_def
    by blast
qed

text \<open>
  Against claim C3 as stated: with a transport attached and the renderer ready, opening
  the sample document fails in the published code (the file read throws), and the session
  that had no document now has its file name, its path and its four fields.
\<close>

theorem openDocument_partial_counterexample:
  "fst (openDocument quiet_deps example_request (ready_session quiet_deps))
     = Some (Error ''REDACTED: readPdfAsBase64(localPath) is private implementation'')
   \<and> fileName (ctl (ready_session quiet_deps)) = None
   \<and> localPath (ctl (ready_session quiet_deps)) = None
   \<and> fields' (ctl (ready_session quiet_deps)) = []
   \<and> fileName (ctl (snd (openDocument quiet_deps example_request
          (ready_session quiet_deps)))) = Some ''form.pdf''
   \<and> localPath (ctl (snd (openDocument quiet_deps example_request
          (ready_session quiet_deps)))) = Some ''/work/form.pdf''
   \<and> map name (fields' (ctl (snd (openDocument quiet_deps example_request
          (ready_session quiet_deps)))))
       = [''fullName'', ''agree'', ''sig'', ''choice'']"
  by code_simp

section \<open>\<open>READY\<close> and the load into the renderer\<close>

lemma posts_append [simp]: "posts (xs @ ys) = posts xs @ posts ys"
  by (simp add: posts_def)

lemma posts_Cons [simp]: "posts (e # es) = (if is_post e then e # posts es else posts es)"
  by (simp add: posts_def)

lemma posts_Nil [simp]: "posts [] = []"
  by (simp add: posts_def)






section \<open>\<open>PDF_DIMENSIONS\<close>\<close>

lemma scale_fields_throws:
  assumes "f \<in> set fs" "relativeCoordinates f = Some rc" "toPx rc vp = Inl e"
  shows "\<exists>e'. scale_fields toPx vp fs = Inl e'"
  using assms
proof (induction fs)
  case Nil
  then show ?case by simp
next
  case (Cons g gs)
  show ?case
  proof (cases "f = g")
    case True
    with Cons.prems show ?thesis by simp
  next
    case False
    with Cons obtain e' where "scale_fields toPx vp gs = Inl e'" by auto
    then show ?thesis
      by (simp split: option.splits sum.splits)
  qed
qed

lemma scale_fields_returns:
  assumes "\<forall>f\<in>set fs. \<forall>rc. relativeCoordinates f = Some rc \<longrightarrow> (\<exists>px. toPx rc vp = Inr px)"
  shows "scale_fields toPx vp fs = Inr (map (rescaled toPx vp) fs)"
  using assms
proof (induction fs)
  case Nil
  then show ?case by simp
next
  case (Cons g gs)
  then have ih: "scale_fields toPx vp gs = Inr (map (rescaled toPx vp) gs)" by simp
  show ?case
  proof (cases "relativeCoordinates g")
    case None
    with ih show ?thesis by (simp add: rescaled_def)
  next
    case (Some rc)
    with Cons.prems obtain px where "toPx rc vp = Inr px" by auto
    with Some ih show ?thesis by (simp add: rescaled_def)
  qed
qed

lemma PDF_DIMENSIONS_throws:
  assumes "renderer_parseInboundMessage d raw = Some (PDF_DIMENSIONS wd ht sc rot)"
    and "scale_fields (coordTransform_toPixelRect d)
           \<lparr> width = wd, height = ht, scale = sc, rotation = rot \<rparr> (fields' (ctl w)) = Inl e"
  shows "onRendererMessage d raw w =
           (Some e,
            ctl_update (\<lambda>c. c\<lparr>overlaysVisible := False\<rparr>)
              (call (MaskOverlays ''dims-changed'')
                (ctl_update (\<lambda>c. c\<lparr>viewport := Some \<lparr> width = wd, height = ht, scale = sc,
                                                       rotation = rot \<rparr>\<rparr>)
                  (call (MarkTick ''PDF_DIMENSIONS'')
                    (call (OnLog ''Renderer message''
                             [(''msgType'', JString ''PDF_DIMENSIONS'')]) w)))))"
  using assms
  by (simp add: onRendererMessage_def Let_def recomputeScaledRectsIfPossible_def)

lemma PDF_DIMENSIONS_returns:
  assumes "renderer_parseInboundMessage d raw = Some (PDF_DIMENSIONS wd ht sc rot)"
    and "scale_fields (coordTransform_toPixelRect d)
           \<lparr> width = wd, height = ht, scale = sc, rotation = rot \<rparr> (fields' (ctl w)) = Inr fs"
  shows "onRendererMessage d raw w =
           (None,
            emit (ctl_update (\<lambda>c. c\<lparr>fields' := fs\<rparr>)
              (ctl_update (\<lambda>c. c\<lparr>overlaysVisible := False\<rparr>)
                (call (MaskOverlays ''dims-changed'')
                  (ctl_update (\<lambda>c. c\<lparr>viewport := Some \<lparr> width = wd, height = ht, scale = sc,
                                                         rotation = rot \<rparr>\<rparr>)
                    (call (MarkTick ''PDF_DIMENSIONS'')
                      (call (OnLog ''Renderer message''
                               [(''msgType'', JString ''PDF_DIMENSIONS'')]) w)))))))"
  using assms
  by (simp add: onRendererMessage_def Let_def recomputeScaledRectsIfPossible_def)

lemma PDF_DIMENSIONS_viewport:
  assumes "renderer_parseInboundMessage d raw = Some (PDF_DIMENSIONS wd ht sc rot)"
  shows "viewport (ctl (snd (onRendererMessage d raw w)))
           = Some \<lparr> width = wd, height = ht, scale = sc, rotation = rot \<rparr>
         \<and> \<not> overlaysVisible (ctl (snd (onRendererMessage d raw w)))"
proof (cases "scale_fields (coordTransform_toPixelRect d)
           \<lparr> width = wd, height = ht, scale = sc, rotation = rot \<rparr> (fields' (ctl w))")
  case (Inl e)
  from PDF_DIMENSIONS_throws [OF assms Inl] show ?thesis by simp
next
  case (Inr fs)
  from PDF_DIMENSIONS_returns [OF assms Inr] show ?thesis by simp
qed

text \<open>
  Claim C2, as the code has it.  The controller does not look at the numbers of a
  \<open>PDF_DIMENSIONS\<close> message: whatever they are, \<open>NaN\<close> included, the viewport becomes exactly
  the reported one and the overlays are masked; and when the coordinate transform returns
  for every field that has a relative box, the method returns and every such field gets
  the box computed against that viewport.
\<close>

theorem PDF_DIMENSIONS_adopted_unchecked:
  assumes "renderer_parseInboundMessage d raw = Some (PDF_DIMENSIONS wd ht sc rot)"
  shows "viewport (ctl (snd (onRendererMessage d raw w)))
           = Some \<lparr> width = wd, height = ht, scale = sc, rotation = rot \<rparr>
         \<and> \<not> overlaysVisible (ctl (snd (onRendererMessage d raw w)))
         \<and> ((\<forall>f\<in>set (fields' (ctl w)). \<forall>rc. relativeCoordinates f = Some rc \<longrightarrow>
                (\<exists>px. coordTransform_toPixelRect d rc
                         \<lparr> width = wd, height = ht, scale = sc, rotation = rot \<rparr> = Inr px))
             \<longrightarrow> fst (onRendererMessage d raw w) = None
                 \<and> fields' (ctl (snd (onRendererMessage d raw w)))
                     = map (rescaled (coordTransform_toPixelRect d)
                              \<lparr> width = wd, height = ht, scale = sc, rotation = rot \<rparr>)
                         (fields' (ctl w)))"
proof -
  let ?vp = "\<lparr> width = wd, height = ht, scale = sc, rotation = rot \<rparr>"
  have "fst (onRendererMessage d raw w) = None
        \<and> fields' (ctl (snd (onRendererMessage d raw w)))
            = map (rescaled (coordTransform_toPixelRect d) ?vp) (fields' (ctl w))"
    if ok: "\<forall>f\<in>set (fields' (ctl w)). \<forall>rc. relativeCoordinates f = Some rc \<longrightarrow>
              (\<exists>px. coordTransform_toPixelRect d rc ?vp = Inr px)"
  proof -
    from scale_fields_returns
           [where toPx = "coordTransform_toPixelRect d" and vp = ?vp and fs = "fields' (ctl w)",
            OF ok]
    have "scale_fields (coordTransform_toPixelRect d) ?vp (fields' (ctl w))
            = Inr (map (rescaled (coordTransform_toPixelRect d) ?vp) (fields' (ctl w)))" .
    from PDF_DIMENSIONS_returns [OF assms this] show ?thesis by simp
  qed
  with PDF_DIMENSIONS_viewport [OF assms, of w] show ?thesis by blast
qed

lemma literal_PDF_DIMENSIONS_no_width:
  "parseRendererInboundMessage JSON_parse co
     ''{\"type\":\"PDF_DIMENSIONS\",\"height\":600,\"scale\":1.5}''
     = Some (PDF_DIMENSIONS NaN (Num 600) (Num (3 / 2)) None)"
  by code_simp

lemma lenient_session_fields:
  "fields' (ctl (example_session
      ((example_deps g rd)\<lparr>coordTransform_toPixelRect := plain_toPixelRect\<rparr>)))
     = example_fields"
  by code_simp

theorem PDF_DIMENSIONS_adopted_unchecked_witness:
  "renderer_parseInboundMessage lenient_deps
     ''{\"type\":\"PDF_DIMENSIONS\",\"height\":600,\"scale\":1.5}''
     = Some (PDF_DIMENSIONS NaN (Num 600) (Num (3 / 2)) None)
   \<and> fst (onRendererMessage lenient_deps
        ''{\"type\":\"PDF_DIMENSIONS\",\"height\":600,\"scale\":1.5}''
        (example_session lenient_deps)) = None
   \<and> viewport (ctl (snd (onRendererMessage lenient_deps
        ''{\"type\":\"PDF_DIMENSIONS\",\"height\":600,\"scale\":1.5}''
        (example_session lenient_deps))))
     = Some \<lparr> width = NaN, height = Num 600, scale = Num (3 / 2), rotation = None \<rparr>
   \<and> map scaledCoordinates (fields' (ctl (snd (onRendererMessage lenient_deps
        ''{\"type\":\"PDF_DIMENSIONS\",\"height\":600,\"scale\":1.5}''
        (example_session lenient_deps)))))
     = map (\<lambda>f. Some \<lparr> left = Num (1 / 10), top' = Num (1 / 5), width = NaN,
                         height = Num 600 \<rparr>) example_fields"
proof -
  let ?d = "(example_deps (\<lambda>tr. False) readPdfAsBase64_published)
              \<lparr>coordTransform_toPixelRect := plain_toPixelRect\<rparr>"
  let ?raw = "''{\"type\":\"PDF_DIMENSIONS\",\"height\":600,\"scale\":1.5}''"
  let ?w = "example_session ?d"
  let ?vp = "\<lparr> width = NaN, height = Num 600, scale = Num (3 / 2), rotation = None \<rparr>"
  have p: "renderer_parseInboundMessage ?d ?raw
             = Some (PDF_DIMENSIONS NaN (Num 600) (Num (3 / 2)) None)"
    by (simp add: example_deps_def literal_PDF_DIMENSIONS_no_width)
  have f: "fields' (ctl ?w) = example_fields"
    by (rule lenient_session_fields)
  have ok: "\<forall>f\<in>set (fields' (ctl ?w)). \<forall>rc. relativeCoordinates f = Some rc \<longrightarrow>
              (\<exists>px. coordTransform_toPixelRect ?d rc ?vp = Inr px)"
    by (simp add: plain_toPixelRect_def)
  from PDF_DIMENSIONS_adopted_unchecked [OF p, of ?w] ok
  have r: "viewport (ctl (snd (onRendererMessage ?d ?raw ?w))) = Some ?vp"
    "fst (onRendererMessage ?d ?raw ?w) = None"
    "fields' (ctl (snd (onRendererMessage ?d ?raw ?w)))
       = map (rescaled (coordTransform_toPixelRect ?d) ?vp) (fields' (ctl ?w))"
    by blast+
  have m: "map scaledCoordinates (map (rescaled (coordTransform_toPixelRect ?d) ?vp)
             example_fields)
           = map (\<lambda>f. Some \<lparr> left = Num (1 / 10), top' = Num (1 / 5), width = NaN,
                               height = Num 600 \<rparr>) example_fields"
    by (simp add: rescaled_def example_fields_def example_field_def plain_toPixelRect_def)
  from p r m f show ?thesis
    unfolding lenient_deps_def
    by simp
qed

text \<open>
  Against claim C2 as stated: a \<open>PDF_DIMENSIONS\<close> message with no \<open>width\<close> (so the width is
  \<open>Number(undefined)\<close>, \<open>NaN\<close>) is not rejected.  On the sample session, with a transform
  that does not throw, the viewport becomes the one with the \<open>NaN\<close> width and every field's
  box is recomputed against it.
\<close>

theorem PDF_DIMENSIONS_NaN_counterexample:
  "renderer_parseInboundMessage lenient_deps
     ''{\"type\":\"PDF_DIMENSIONS\",\"height\":600,\"scale\":1.5}''
     = Some (PDF_DIMENSIONS NaN (Num 600) (Num (3 / 2)) None)
   \<and> viewport (ctl (example_session lenient_deps)) = None
   \<and> fst (onRendererMessage lenient_deps
        ''{\"type\":\"PDF_DIMENSIONS\",\"height\":600,\"scale\":1.5}''
        (example_session lenient_deps)) = None
   \<and> viewport (ctl (snd (onRendererMessage lenient_deps
        ''{\"type\":\"PDF_DIMENSIONS\",\"height\":600,\"scale\":1.5}''
        (example_session lenient_deps))))
     = Some \<lparr> width = NaN, height = Num 600, scale = Num (3 / 2), rotation = None \<rparr>
   \<and> map scaledCoordinates (fields' (ctl (snd (onRendererMessage lenient_deps
        ''{\"type\":\"PDF_DIMENSIONS\",\"height\":600,\"scale\":1.5}''
        (example_session lenient_deps)))))
     = replicate 4 (Some \<lparr> left = Num (1 / 10), top' = Num (1 / 5), width = NaN,
                            height = Num 600 \<rparr>)"
  by code_simp

text \<open>
  Claim C5, as the code has it.  When \<open>toPixelRect\<close> throws for some field while a
  \<open>PDF_DIMENSIONS\<close> message is handled, the error leaves \<open>onRendererMessage\<close>; by then the
  viewport is the new one and the overlays are masked, but the field list is untouched:
  every field keeps the box it had (set or not), and no snapshot is emitted.
\<close>

theorem PDF_DIMENSIONS_transform_throws:
  assumes "renderer_parseInboundMessage d raw = Some (PDF_DIMENSIONS wd ht sc rot)"
    and "f \<in> set (fields' (ctl w))"
    and "relativeCoordinates f = Some rc"
    and "coordTransform_toPixelRect d rc
           \<lparr> width = wd, height = ht, scale = sc, rotation = rot \<rparr> = Inl e"
  shows "fst (onRendererMessage d raw w) \<noteq> None
         \<and> fields' (ctl (snd (onRendererMessage d raw w))) = fields' (ctl w)
         \<and> viewport (ctl (snd (onRendererMessage d raw w)))
             = Some \<lparr> width = wd, height = ht, scale = sc, rotation = rot \<rparr>
         \<and> \<not> overlaysVisible (ctl (snd (onRendererMessage d raw w)))
         \<and> new_effects w (snd (onRendererMessage d raw w))
             = [OnLog ''Renderer message'' [(''msgType'', JString ''PDF_DIMENSIONS'')],
                MarkTick ''PDF_DIMENSIONS'', MaskOverlays ''dims-changed'']"
proof -
  from scale_fields_throws
         [where toPx = "coordTransform_toPixelRect d"
            and vp = "\<lparr> width = wd, height = ht, scale = sc, rotation = rot \<rparr>",
          OF assms(2,3,4)]
  obtain e' where
    "scale_fields (coordTransform_toPixelRect d)
       \<lparr> width = wd, height = ht, scale = sc, rotation = rot \<rparr> (fields' (ctl w)) = Inl e'"
    by blast
  from PDF_DIMENSIONS_throws [OF assms(1) this] show ?thesis
    by (simp add: new_effects_def)
qed

lemma example_stale_setup:
  "fields' (ctl (run (example_deps g rd)
      [OpenDocument example_request,
       RendererMessage ''{\"type\":\"PDF_DIMENSIONS\",\"width\":800,\"height\":600,\"scale\":1.5}'']
      new_controller))
     = map (\<lambda>f. f\<lparr>scaledCoordinates :=
                     Some \<lparr> left = Num (1 / 10), top' = Num (1 / 5), width = Num 800,
                            height = Num 600 \<rparr>\<rparr>) example_fields"
  by code_simp

theorem PDF_DIMENSIONS_transform_throws_witness:
  "fst (onRendererMessage quiet_deps
          ''{\"type\":\"PDF_DIMENSIONS\",\"height\":600,\"scale\":1.5}''
          (sized_session quiet_deps)) \<noteq> None
   \<and> fields' (ctl (snd (onRendererMessage quiet_deps
          ''{\"type\":\"PDF_DIMENSIONS\",\"height\":600,\"scale\":1.5}''
          (sized_session quiet_deps))))
       = map (\<lambda>f. f\<lparr>scaledCoordinates :=
                       Some \<lparr> left = Num (1 / 10), top' = Num (1 / 5), width = Num 800,
                              height = Num 600 \<rparr>\<rparr>) example_fields"
proof -
  let ?d = "example_deps (\<lambda>tr. False) readPdfAsBase64_published"
  let ?raw = "''{\"type\":\"PDF_DIMENSIONS\",\"height\":600,\"scale\":1.5}''"
  let ?w = "run ?d [OpenDocument example_request,
              RendererMessage
                ''{\"type\":\"PDF_DIMENSIONS\",\"width\":800,\"height\":600,\"scale\":1.5}'']
             new_controller"
  let ?box = "Some \<lparr> left = Num (1 / 10), top' = Num (1 / 5), width = Num 800,
                     height = Num 600 \<rparr>"
  let ?f = "(example_field ''fullName'' ''PDFTextField'' (VString ''x''))
              \<lparr>scaledCoordinates := ?box\<rparr>"
  let ?rc = "\<lparr> leftPct = Num (1 / 10), topPct = Num (1 / 5), widthPct = Num (1 / 2),
                heightPct = Num (1 / 20) \<rparr>"
  have p: "renderer_parseInboundMessage ?d ?raw
             = Some (PDF_DIMENSIONS NaN (Num 600) (Num (3 / 2)) None)"
    by (simp add: example_deps_def literal_PDF_DIMENSIONS_no_width)
  have fs: "fields' (ctl ?w) = map (\<lambda>f. f\<lparr>scaledCoordinates := ?box\<rparr>) example_fields"
    by (rule example_stale_setup)
  have m: "?f \<in> set (fields' (ctl ?w))"
    unfolding fs
    by (simp add: example_fields_def)
  have r: "relativeCoordinates ?f = Some ?rc"
    by (simp add: example_field_def)
  have t: "coordTransform_toPixelRect ?d ?rc
             \<lparr> width = NaN, height = Num 600, scale = Num (3 / 2), rotation = None \<rparr>
             = Inl (Error ''unusable viewport'')"
    by (simp add: example_deps_def example_toPixelRect_def)
  from PDF_DIMENSIONS_transform_throws [OF p m r t] fs
  show ?thesis
    unfolding quiet_deps_def sized_session_def
    by simp
qed

text \<open>
  Against claim C5 as stated: on the sample session the boxes were computed for an 800 by
  600 viewport; a second \<open>PDF_DIMENSIONS\<close> message, for which the transform throws, leaves
  the first field's box set, to the value computed against the superseded viewport, while
  the viewport is already the new one.
\<close>

theorem PDF_DIMENSIONS_stale_box_counterexample:
  "fst (onRendererMessage quiet_deps
          ''{\"type\":\"PDF_DIMENSIONS\",\"height\":600,\"scale\":1.5}''
          (sized_session quiet_deps)) = Some (Error ''unusable viewport'')
   \<and> viewport (ctl (snd (onRendererMessage quiet_deps
          ''{\"type\":\"PDF_DIMENSIONS\",\"height\":600,\"scale\":1.5}''
          (sized_session quiet_deps))))
       = Some \<lparr> width = NaN, height = Num 600, scale = Num (3 / 2), rotation = None \<rparr>
   \<and> scaledCoordinates (hd (fields' (ctl (snd (onRendererMessage quiet_deps
          ''{\"type\":\"PDF_DIMENSIONS\",\"height\":600,\"scale\":1.5}''
          (sized_session quiet_deps))))))
       = Some \<lparr> left = Num (1 / 10), top' = Num (1 / 5), width = Num 800,
                height = Num 600 \<rparr>"
  by code_simp

section \<open>When the overlays are reported visible\<close>

lemma mustFindField_known:
  "n \<in> name ` set (fields' c) \<Longrightarrow> \<exists>f. mustFindField c n = Inr f"
proof -
  assume "n \<in> name ` set (fields' c)"
  then have "find (\<lambda>x. name x = n) (fields' c) \<noteq> None"
    by (auto simp: find_None_iff)
  then show ?thesis by (auto simp: mustFindField_def)
qed

lemma saveText_masks:
  assumes "n \<in> name ` set (fields' (ctl w))" and "\<not> falsy (localPath (ctl w))"
  shows "\<not> overlaysVisible (ctl (snd (saveText d n v w)))"
    and "take 2 (new_effects w (snd (saveText d n v w))) =
           [MaskOverlays ''save-text'',
            OnSnapshot (getSnapshot ((ctl w)\<lparr>status := Some (''Saving text'' @ ellipsis),
                                             isDirty := True, overlaysVisible := False\<rparr>))]"
proof -
  from mustFindField_known [OF assms(1)] obtain f where
    f: "mustFindField (ctl w) n = Inr f" by blast
  let ?w5 = "call (WriteText (the (localPath (ctl w))) f v)
               (emit (maskOverlaysForNavigation ''save-text''
                 (ctl_update (\<lambda>c. c\<lparr>isDirty := True\<rparr>)
                   (set_status (''Saving text'' @ ellipsis) w))))"
  show "\<not> overlaysVisible (ctl (snd (saveText d n v w)))"
    using f assms(2)
    by (cases "fieldWriter_writeText d (trace ?w5) (the (localPath (ctl w))) f v")
      (simp_all add: saveText_def saveText_try_def Let_def catch_rethrow_def)
  show "take 2 (new_effects w (snd (saveText d n v w))) =
           [MaskOverlays ''save-text'',
            OnSnapshot (getSnapshot ((ctl w)\<lparr>status := Some (''Saving text'' @ ellipsis),
                                             isDirty := True, overlaysVisible := False\<rparr>))]"
    using f assms(2)
    by (cases "fieldWriter_writeText d (trace ?w5) (the (localPath (ctl w))) f v")
      (simp_all add: saveText_def saveText_try_def Let_def catch_rethrow_def new_effects_def)
qed

lemma toggleCheckbox_masks:
  assumes "n \<in> name ` set (fields' (ctl w))" and "\<not> falsy (localPath (ctl w))"
  shows "\<not> overlaysVisible (ctl (snd (toggleCheckbox d n b w)))"
    and "take 2 (new_effects w (snd (toggleCheckbox d n b w))) =
           [MaskOverlays ''save-checkbox'',
            OnSnapshot (getSnapshot ((ctl w)\<lparr>status := Some (''Saving checkbox'' @ ellipsis),
                                             isDirty := True, overlaysVisible := False\<rparr>))]"
proof -
  from mustFindField_known [OF assms(1)] obtain f where
    f: "mustFindField (ctl w) n = Inr f" by blast
  let ?v = "case b of Some x \<Rightarrow> x | None \<Rightarrow> \<not> Boolean_js (fvalue f)"
  let ?w5 = "call (WriteCheckbox (the (localPath (ctl w))) f ?v)
               (emit (maskOverlaysForNavigation ''save-checkbox''
                 (ctl_update (\<lambda>c. c\<lparr>isDirty := True\<rparr>)
                   (set_status (''Saving checkbox'' @ ellipsis) w))))"
  show "\<not> overlaysVisible (ctl (snd (toggleCheckbox d n b w)))"
    using f assms(2)
    by (cases "fieldWriter_writeCheckbox d (trace ?w5) (the (localPath (ctl w))) f ?v")
      (simp_all add: toggleCheckbox_def toggleCheckbox_try_def Let_def catch_rethrow_def
        onCheckboxDomainRulesApplied_def)
  show "take 2 (new_effects w (snd (toggleCheckbox d n b w))) =
           [MaskOverlays ''save-checkbox'',
            OnSnapshot (getSnapshot ((ctl w)\<lparr>status := Some (''Saving checkbox'' @ ellipsis),
                                             isDirty := True, overlaysVisible := False\<rparr>))]"
    using f assms(2)
    by (cases "fieldWriter_writeCheckbox d (trace ?w5) (the (localPath (ctl w))) f ?v")
      (simp_all add: toggleCheckbox_def toggleCheckbox_try_def Let_def catch_rethrow_def
        onCheckboxDomainRulesApplied_def new_effects_def)
qed

lemma saveSignature_masks:
  assumes "\<not> falsy (localPath (ctl w))"
  shows "\<not> overlaysVisible (ctl (snd (saveSignature d args w)))"
    and "take 2 (new_effects w (snd (saveSignature d args w))) =
           [MaskOverlays ''save-signature'',
            OnSnapshot (getSnapshot ((ctl w)\<lparr>status := Some (''Saving signature'' @ ellipsis),
                                             isDirty := True, overlaysVisible := False\<rparr>))]"
proof -
  let ?p = "the (localPath (ctl w))"
  let ?w5 = "call (WriteSignature ?p (signatureBase64 args) (mode args) (targetFieldName args))
               (emit (maskOverlaysForNavigation ''save-signature''
                 (ctl_update (\<lambda>c. c\<lparr>isDirty := True\<rparr>)
                   (set_status (''Saving signature'' @ ellipsis) w))))"
  show "\<not> overlaysVisible (ctl (snd (saveSignature d args w)))"
    using assms
    by (cases "fieldWriter_writeSignature d (trace ?w5) ?p (signatureBase64 args) (mode args)
                 (targetFieldName args)")
      (simp_all add: saveSignature_def saveSignature_try_def Let_def catch_rethrow_def)
  show "take 2 (new_effects w (snd (saveSignature d args w))) =
           [MaskOverlays ''save-signature'',
            OnSnapshot (getSnapshot ((ctl w)\<lparr>status := Some (''Saving signature'' @ ellipsis),
                                             isDirty := True, overlaysVisible := False\<rparr>))]"
    using assms
    by (cases "fieldWriter_writeSignature d (trace ?w5) ?p (signatureBase64 args) (mode args)
                 (targetFieldName args)")
      (simp_all add: saveSignature_def saveSignature_try_def Let_def catch_rethrow_def
        new_effects_def)
qed

lemma clearForm_masks:
  assumes "\<not> falsy (localPath (ctl w))"
  shows "\<not> overlaysVisible (ctl (snd (clearForm d w)))"
    and "take 2 (new_effects w (snd (clearForm d w))) =
           [MaskOverlays ''clear-form'',
            OnSnapshot (getSnapshot ((ctl w)\<lparr>status := Some (''Clearing form'' @ ellipsis),
                                             isDirty := True, overlaysVisible := False\<rparr>))]"
proof -
  let ?p = "the (localPath (ctl w))"
  let ?w5 = "call (WriterClearForm ?p (fields' (ctl w)))
               (emit (maskOverlaysForNavigation ''clear-form''
                 (ctl_update (\<lambda>c. c\<lparr>isDirty := True\<rparr>)
                   (set_status (''Clearing form'' @ ellipsis) w))))"
  show "\<not> overlaysVisible (ctl (snd (clearForm d w)))"
    using assms
    by (cases "fieldWriter_clearForm d (trace ?w5) ?p (fields' (ctl w))")
      (simp_all add: clearForm_def clearForm_try_def Let_def catch_rethrow_def)
  show "take 2 (new_effects w (snd (clearForm d w))) =
           [MaskOverlays ''clear-form'',
            OnSnapshot (getSnapshot ((ctl w)\<lparr>status := Some (''Clearing form'' @ ellipsis),
                                             isDirty := True, overlaysVisible := False\<rparr>))]"
    using assms
    by (cases "fieldWriter_clearForm d (trace ?w5) ?p (fields' (ctl w))")
      (simp_all add: clearForm_def clearForm_try_def Let_def catch_rethrow_def new_effects_def)
qed

text \<open>An edit that stops before its masking step leaves the flag as it was.\<close>

lemma saveText_overlays:
  "overlaysVisible (ctl (snd (saveText d n v w))) \<Longrightarrow> overlaysVisible (ctl w)"
proof (cases "n \<in> name ` set (fields' (ctl w)) \<and> \<not> falsy (localPath (ctl w))")
  case True
  assume "overlaysVisible (ctl (snd (saveText d n v w)))"
  with saveText_masks(1) [of n w d v] True show ?thesis by blast
next
  case False
  assume a: "overlaysVisible (ctl (snd (saveText d n v w)))"
  show ?thesis
  proof (cases "n \<in> name ` set (fields' (ctl w))")
    case False
    with a show ?thesis by (simp add: saveText_unknown)
  next
    case True
    with False have l: "falsy (localPath (ctl w))" by blast
    from mustFindField_known [OF True] obtain f where
      "mustFindField (ctl w) n = Inr f" by blast
    with a l show ?thesis
      by (simp add: saveText_def saveText_try_def catch_rethrow_def)
  qed
qed

lemma toggleCheckbox_overlays:
  "overlaysVisible (ctl (snd (toggleCheckbox d n b w))) \<Longrightarrow> overlaysVisible (ctl w)"
proof (cases "n \<in> name ` set (fields' (ctl w)) \<and> \<not> falsy (localPath (ctl w))")
  case True
  assume "overlaysVisible (ctl (snd (toggleCheckbox d n b w)))"
  with toggleCheckbox_masks(1) [of n w d b] True show ?thesis by blast
next
  case False
  assume a: "overlaysVisible (ctl (snd (toggleCheckbox d n b w)))"
  show ?thesis
  proof (cases "n \<in> name ` set (fields' (ctl w))")
    case False
    with a show ?thesis by (simp add: toggleCheckbox_unknown)
  next
    case True
    with False have l: "falsy (localPath (ctl w))" by blast
    from mustFindField_known [OF True] obtain f where
      "mustFindField (ctl w) n = Inr f" by blast
    with a l show ?thesis
      by (simp add: toggleCheckbox_def toggleCheckbox_try_def catch_rethrow_def)
  qed
qed

lemma saveSignature_overlays:
  "overlaysVisible (ctl (snd (saveSignature d args w))) \<Longrightarrow> overlaysVisible (ctl w)"
proof (cases "falsy (localPath (ctl w))")
  case True
  assume "overlaysVisible (ctl (snd (saveSignature d args w)))"
  with True show ?thesis
    by (simp add: saveSignature_def saveSignature_try_def catch_rethrow_def)
next
  case False
  assume "overlaysVisible (ctl (snd (saveSignature d args w)))"
  with saveSignature_masks(1) [OF False, of d args] show ?thesis by blast
qed

lemma clearForm_overlays:
  "overlaysVisible (ctl (snd (clearForm d w))) \<Longrightarrow> overlaysVisible (ctl w)"
proof (cases "falsy (localPath (ctl w))")
  case True
  assume "overlaysVisible (ctl (snd (clearForm d w)))"
  with True show ?thesis
    by (simp add: clearForm_def clearForm_try_def catch_rethrow_def)
next
  case False
  assume "overlaysVisible (ctl (snd (clearForm d w)))"
  with clearForm_masks(1) [OF False, of d] show ?thesis by blast
qed

lemma ctl_loadIntoRenderer_begin [simp]: "ctl (snd (loadIntoRenderer_begin d w)) = ctl w"
  by (simp add: loadIntoRenderer_begin_def Let_def)

lemma ctl_loadIntoRenderer_resume [simp]: "ctl (snd (loadIntoRenderer_resume d r w)) = ctl w"
  by (simp add: loadIntoRenderer_resume_def split: option.splits sum.splits)

text \<open>What \<open>onRendererMessage\<close> does to the flag, by the message.\<close>

lemma onRendererMessage_overlays:
  "overlaysVisible (ctl (snd (onRendererMessage d raw w))) =
     (case renderer_parseInboundMessage d raw of
        None \<Rightarrow> overlaysVisible (ctl w)
      | Some READY \<Rightarrow> overlaysVisible (ctl w)
      | Some (PDF_DIMENSIONS wd ht sc rot) \<Rightarrow> False
      | Some RENDER_DONE \<Rightarrow>
          overlayGate_canShowOverlays d
            (trace w @ [OnLog ''Renderer message'' [(''msgType'', JString ''RENDER_DONE'')],
                        MarkTick ''RENDER_DONE'', MarkRenderDone,
                        RequestUnmask ''render-done''])
      | Some READY_FOR_OVERLAYS \<Rightarrow>
          overlayGate_canShowOverlays d
            (trace w @ [OnLog ''Renderer message''
                          [(''msgType'', JString ''READY_FOR_OVERLAYS'')],
                        MarkTick ''READY_FOR_OVERLAYS'',
                        RequestUnmask ''renderer-ready-for-overlays''])
      | Some (DEBUG_PAGE_COUNT pages) \<Rightarrow> overlaysVisible (ctl w))"
proof (cases "renderer_parseInboundMessage d raw")
  case None
  then show ?thesis by (simp add: onRendererMessage_def)
next
  case (Some msg)
  show ?thesis
  proof (cases msg)
    case READY
    with Some show ?thesis
      by (simp add: onRendererMessage_def Let_def case_prod_beta)
  next
    case (PDF_DIMENSIONS wd ht sc rot)
    with Some PDF_DIMENSIONS_viewport [of d raw wd ht sc rot w] show ?thesis by simp
  next
    case RENDER_DONE
    with Some show ?thesis by (simp add: onRendererMessage_def Let_def)
  next
    case READY_FOR_OVERLAYS
    with Some show ?thesis by (simp add: onRendererMessage_def Let_def)
  next
    case (DEBUG_PAGE_COUNT pages)
    with Some show ?thesis by (simp add: onRendererMessage_def Let_def)
  qed
qed

lemma step_unmask:
  assumes "\<not> overlaysVisible (ctl w)" and "overlaysVisible (ctl (snd (step d ev w)))"
  shows "(\<exists>raw. ev = RendererMessage raw
            \<and> renderer_parseInboundMessage d raw = Some RENDER_DONE
            \<and> overlayGate_canShowOverlays d
                (trace w @ [OnLog ''Renderer message'' [(''msgType'', JString ''RENDER_DONE'')],
                            MarkTick ''RENDER_DONE'', MarkRenderDone,
                            RequestUnmask ''render-done'']))
         \<or> (\<exists>raw. ev = RendererMessage raw
            \<and> renderer_parseInboundMessage d raw = Some READY_FOR_OVERLAYS
            \<and> overlayGate_canShowOverlays d
                (trace w @ [OnLog ''Renderer message''
                              [(''msgType'', JString ''READY_FOR_OVERLAYS'')],
                            MarkTick ''READY_FOR_OVERLAYS'',
                            RequestUnmask ''renderer-ready-for-overlays'']))
         \<or> (ev = TimeoutFires \<and> 0 < timeouts w
            \<and> overlayGate_canShowOverlays d (trace w @ [RequestUnmask ''refresh-complete'']))"
proof (cases ev)
  case (AttachRendererTransport t)
  with assms show ?thesis by (simp add: attachRendererTransport_def)
next
  case (OpenDocument req)
  with assms openDocument_frame [of d req w] show ?thesis by simp
next
  case (RendererMessage raw)
  with assms onRendererMessage_overlays [of d raw w] show ?thesis
    by (auto split: option.splits RendererInboundMessage.splits)
next
  case (SetPage n)
  with assms show ?thesis by (simp add: setPage_def Let_def)
next
  case (SetScale s)
  with assms show ?thesis by (simp add: setScale_def Let_def)
next
  case (SelectField n)
  with assms show ?thesis by (simp add: selectField_def)
next
  case (SaveText n v)
  with assms saveText_overlays [of d n v w] show ?thesis by auto
next
  case (ToggleCheckbox n b)
  with assms toggleCheckbox_overlays [of d n b w] show ?thesis by auto
next
  case (SaveSignature args)
  with assms saveSignature_overlays [of d args w] show ?thesis by auto
next
  case ClearForm
  with assms clearForm_overlays [of d w] show ?thesis by auto
next
  case TimeoutFires
  with assms show ?thesis
    by (cases "timeouts w = 0") (simp_all add: refresh_complete_def Let_def)
qed

text \<open>
  Claim C1, as the code has it.  \<open>openDocument\<close> does not touch \<open>overlaysVisible\<close>: it is
  after the call what it was before (so it is false after opening on a new controller).
  It is false after any \<open>PDF_DIMENSIONS\<close> message, after \<open>setPage\<close> and \<open>setScale\<close>, and
  after every edit call that reaches its masking step (the named field exists, where one
  is named, and a working copy is open); the snapshot emitted right after that step
  reports it false.  A step of the session takes it from false to true only when the step
  is a \<open>RENDER_DONE\<close> or \<open>READY_FOR_OVERLAYS\<close> message or a waiting refresh callback, and
  the gate, asked at that moment, allows the overlays.
\<close>

theorem overlaysVisible_only_by_unmask:
  "overlaysVisible (ctl (snd (openDocument d req w))) = overlaysVisible (ctl w)
   \<and> \<not> overlaysVisible (ctl (snd (openDocument d req new_controller)))
   \<and> (renderer_parseInboundMessage d raw = Some (PDF_DIMENSIONS wd ht sc rot) \<longrightarrow>
        \<not> overlaysVisible (ctl (snd (onRendererMessage d raw w))))
   \<and> \<not> overlaysVisible (ctl (setPage d pg w))
   \<and> \<not> overlaysVisible (ctl (setScale d s w))
   \<and> (n \<in> name ` set (fields' (ctl w)) \<and> \<not> falsy (localPath (ctl w)) \<longrightarrow>
        \<not> overlaysVisible (ctl (snd (saveText d n v w)))
        \<and> take 2 (new_effects w (snd (saveText d n v w))) =
            [MaskOverlays ''save-text'',
             OnSnapshot (getSnapshot ((ctl w)\<lparr>status := Some (''Saving text'' @ ellipsis),
                                              isDirty := True, overlaysVisible := False\<rparr>))]
        \<and> \<not> overlaysVisible (ctl (snd (toggleCheckbox d n b w)))
        \<and> take 2 (new_effects w (snd (toggleCheckbox d n b w))) =
            [MaskOverlays ''save-checkbox'',
             OnSnapshot (getSnapshot ((ctl w)\<lparr>status := Some (''Saving checkbox'' @ ellipsis),
                                              isDirty := True, overlaysVisible := False\<rparr>))])
   \<and> (\<not> falsy (localPath (ctl w)) \<longrightarrow>
        \<not> overlaysVisible (ctl (snd (saveSignature d args w)))
        \<and> take 2 (new_effects w (snd (saveSignature d args w))) =
            [MaskOverlays ''save-signature'',
             OnSnapshot (getSnapshot ((ctl w)\<lparr>status := Some (''Saving signature'' @ ellipsis),
                                              isDirty := True, overlaysVisible := False\<rparr>))]
        \<and> \<not> overlaysVisible (ctl (snd (clearForm d w)))
        \<and> take 2 (new_effects w (snd (clearForm d w))) =
            [MaskOverlays ''clear-form'',
             OnSnapshot (getSnapshot ((ctl w)\<lparr>status := Some (''Clearing form'' @ ellipsis),
                                              isDirty := True, overlaysVisible := False\<rparr>))])
   \<and> (\<not> overlaysVisible (ctl w) \<and> overlaysVisible (ctl (snd (step d ev w))) \<longrightarrow>
        (\<exists>raw'. ev = RendererMessage raw'
            \<and> renderer_parseInboundMessage d raw' = Some RENDER_DONE
            \<and> overlayGate_canShowOverlays d
                (trace w @ [OnLog ''Renderer message'' [(''msgType'', JString ''RENDER_DONE'')],
                            MarkTick ''RENDER_DONE'', MarkRenderDone,
                            RequestUnmask ''render-done'']))
        \<or> (\<exists>raw'. ev = RendererMessage raw'
            \<and> renderer_parseInboundMessage d raw' = Some READY_FOR_OVERLAYS
            \<and> overlayGate_canShowOverlays d
                (trace w @ [OnLog ''Renderer message''
                              [(''msgType'', JString ''READY_FOR_OVERLAYS'')],
                            MarkTick ''READY_FOR_OVERLAYS'',
                            RequestUnmask ''renderer-ready-for-overlays'']))
        \<or> (ev = TimeoutFires \<and> 0 < timeouts w
            \<and> overlayGate_canShowOverlays d (trace w @ [RequestUnmask ''refresh-complete''])))"
proof -
  have o1: "overlaysVisible (ctl (snd (openDocument d req w))) = overlaysVisible (ctl w)"
    using openDocument_frame [of d req w] by simp
  have o2: "\<not> overlaysVisible (ctl (snd (openDocument d req new_controller)))"
    using openDocument_frame [of d req new_controller] by (simp add: new_controller_def)
  have dm: "renderer_parseInboundMessage d raw = Some (PDF_DIMENSIONS wd ht sc rot) \<longrightarrow>
        \<not> overlaysVisible (ctl (snd (onRendererMessage d raw w)))"
    using PDF_DIMENSIONS_viewport [of d raw wd ht sc rot w] by simp
  have nav: "\<not> overlaysVisible (ctl (setPage d pg w))" "\<not> overlaysVisible (ctl (setScale d s w))"
    by (simp_all add: setPage_def setScale_def Let_def)
  note e1 = saveText_masks [of n w d v] toggleCheckbox_masks [of n w d b]
  note e2 = saveSignature_masks [of w d args] clearForm_masks [of w d]
  note st = step_unmask [of w d ev]
  from o1 o2 dm nav e1 e2 st show ?thesis by blast
qed

lemma example_unmask_setup:
  "\<not> overlaysVisible (ctl (example_session (example_deps (\<lambda>tr. True) rd)))
   \<and> overlaysVisible (ctl (snd (step (example_deps (\<lambda>tr. True) rd)
        (RendererMessage ''{\"type\":\"RENDER_DONE\"}'')
        (example_session (example_deps (\<lambda>tr. True) rd)))))
   \<and> localPath (ctl (example_session (example_deps (\<lambda>tr. True) rd))) = Some ''/work/form.pdf''"
  by code_simp

theorem overlaysVisible_only_by_unmask_witness:
  "\<not> overlaysVisible (ctl (example_session granting_deps))
   \<and> overlaysVisible (ctl (snd (step granting_deps
        (RendererMessage ''{\"type\":\"RENDER_DONE\"}'') (example_session granting_deps))))
   \<and> renderer_parseInboundMessage granting_deps
        ''{\"type\":\"PDF_DIMENSIONS\",\"width\":800,\"height\":600,\"scale\":1.5}''
       = Some (PDF_DIMENSIONS (Num 800) (Num 600) (Num (3 / 2)) None)
   \<and> \<not> overlaysVisible (ctl (snd (onRendererMessage granting_deps
        ''{\"type\":\"PDF_DIMENSIONS\",\"width\":800,\"height\":600,\"scale\":1.5}''
        (example_session granting_deps))))
   \<and> ''fullName'' \<in> name ` set (fields' (ctl (example_session granting_deps)))
   \<and> \<not> falsy (localPath (ctl (example_session granting_deps)))
   \<and> \<not> overlaysVisible (ctl (snd (saveText granting_deps ''fullName'' ''Jane Doe''
        (example_session granting_deps))))
   \<and> \<not> overlaysVisible (ctl (snd (clearForm granting_deps
        (example_session granting_deps))))"
proof -
  let ?d = "example_deps (\<lambda>tr. True) readPdfAsBase64_published"
  let ?w = "example_session ?d"
  let ?dims = "''{\"type\":\"PDF_DIMENSIONS\",\"width\":800,\"height\":600,\"scale\":1.5}''"
  let ?ev = "RendererMessage ''{\"type\":\"RENDER_DONE\"}''"
  note s = example_unmask_setup [of readPdfAsBase64_published]
  have p: "renderer_parseInboundMessage ?d ?dims
             = Some (PDF_DIMENSIONS (Num 800) (Num 600) (Num (3 / 2)) None)"
    by (simp add: example_deps_def literal_PDF_DIMENSIONS)
  have n: "''fullName'' \<in> name ` set (fields' (ctl ?w))"
    by (simp add: example_session_names)
  from s have l: "\<not> falsy (localPath (ctl ?w))"
    by (simp add: falsy_def)
  from overlaysVisible_only_by_unmask
         [where d = ?d and w = ?w and raw = ?dims and wd = "Num 800" and ht = "Num 600"
            and sc = "Num (3 / 2)" and rot = None and n = "''fullName''"
            and v = "''Jane Doe''" and ev = ?ev]
       s p n l
  show ?thesis
    unfolding granting_deps_def
    by blast
qed

text \<open>
  Against claim C1 as stated: on a new controller a \<open>RENDER_DONE\<close> message arrives and the
  gate allows the overlays; \<open>openDocument\<close> then completes, and \<open>overlaysVisible\<close> is true.
\<close>

theorem openDocument_overlays_counterexample:
  "fst (openDocument granting_deps example_request (unmasked_session granting_deps)) = None
   \<and> overlaysVisible (ctl (snd (openDocument granting_deps example_request
          (unmasked_session granting_deps))))"
  by code_simp

section \<open>Before a transport is attached\<close>





lemma transport_onRendererMessage [simp]:
  "transport (ctl (snd (onRendererMessage d raw w))) = transport (ctl w)"
proof (cases "renderer_parseInboundMessage d raw")
  case None
  then show ?thesis by (simp add: onRendererMessage_def)
next
  case (Some msg)
  show ?thesis
  proof (cases msg)
    case READY
    with Some show ?thesis
      by (simp add: onRendererMessage_def Let_def case_prod_beta)
  next
    case (PDF_DIMENSIONS wd ht sc rot)
    with Some show ?thesis
      by (simp add: onRendererMessage_def Let_def recomputeScaledRectsIfPossible_def
          split: sum.splits)
  next
    case RENDER_DONE
    with Some show ?thesis by (simp add: onRendererMessage_def Let_def)
  next
    case READY_FOR_OVERLAYS
    with Some show ?thesis by (simp add: onRendererMessage_def Let_def)
  next
    case (DEBUG_PAGE_COUNT pages)
    with Some show ?thesis by (simp add: onRendererMessage_def Let_def)
  qed
qed











end
